theory Spec2Isabelle
  imports Main
begin

section \<open>Values shared by the managers\<close>

text \<open>
  JavaScript objects are shared by reference: a \<open>Character\<close> held in
  \<open>this.characters\<close>, in another character's \<open>targetedBy\<close> and in a grid cell is
  one object. Objects therefore live in a store, addressed by a reference.
\<close>

type_synonym ref = nat

text \<open>
  \<open>user_id\<close> is a string for a player and \<open>undefined\<close> for a non-player
  character. \<open>truthy\<close> is JavaScript's truthiness of such a value, as tested by
  \<open>if (!user_id)\<close> and \<open>if (char.user_id)\<close>.
\<close>

type_synonym user_id = "string option"

definition truthy :: "user_id \<Rightarrow> bool" where
  "truthy u = (case u of None \<Rightarrow> False | Some s \<Rightarrow> s \<noteq> [])"

record location =
  loc_map :: string
  loc_x :: int
  loc_y :: int

record faction =
  tag :: string
  faction_name :: string
  faction_id :: string

record character =
  user_id :: user_id
  name :: string
  profile_image :: string
  char_faction_id :: string
  char_faction :: "faction option"
  location :: location
  targetedBy :: "ref list"
  target :: "ref option"
  hidden :: bool
  stats_money :: int
  stats_exp :: int

subsection \<open>Template literals\<close>

text \<open>
  Coordinates and cash are JavaScript numbers holding integers; a template literal
  prints them in decimal, with a leading minus sign when negative.
\<close>

definition digit_char :: "nat \<Rightarrow> char" where
  "digit_char d = ''0123456789'' ! d"

function show_nat :: "nat \<Rightarrow> string" where
  "show_nat n = (if n < 10 then [digit_char n] else show_nat (n div 10) @ [digit_char (n mod 10)])"
  by pat_completeness auto
termination
  by (relation "measure id") auto

declare show_nat.simps [simp del]

definition show_int :: "int \<Rightarrow> string" where
  "show_int i = (if i < 0 then CHR ''-'' # show_nat (nat (- i)) else show_nat (nat i))"

text \<open>The key of a grid cell, \<open>`${position.map}_${position.y}_${position.x}`\<close>.\<close>

definition location_key :: "location \<Rightarrow> string" where
  "location_key position =
     loc_map position @ ''_'' @ show_int (loc_y position) @ ''_'' @ show_int (loc_x position)"

text \<open>\<open>Array.prototype.findIndex\<close>; \<open>None\<close> is the source's \<open>-1\<close>.\<close>

fun findIndex :: "('a \<Rightarrow> bool) \<Rightarrow> 'a list \<Rightarrow> nat option" where
  "findIndex P [] = None"
| "findIndex P (x # xs) = (if P x then Some 0 else map_option Suc (findIndex P xs))"

text \<open>\<open>Array.prototype.join\<close>.\<close>

fun join :: "string list \<Rightarrow> string \<Rightarrow> string" where
  "join [] sep = []"
| "join [s] sep = s"
| "join (s # t # ss) sep = s @ sep @ join (t # ss) sep"

section \<open>Calls to the collaborators\<close>

text \<open>
  The socket manager, the item manager, the map manager, the faction objects and the
  persistence layer are outside the character manager. Every call the manager makes
  to one of them is recorded, in order, in the \<open>calls\<close> field of the state.
\<close>

record socket =
  socket_id :: nat
  socket_user :: user_id

datatype action =
    ADD_ONLINE_PLAYER user_id string string "faction option"
  | REMOVE_ONLINE_PLAYER user_id
  | UPDATE_CHARACTER character
  | LEFT_GRID user_id
  | JOINED_GRID string user_id
  | UPDATE_GROUND_ITEMS string int int
  | NEW_EVENT string string "user_id list"

datatype call =
    DispatchToUser user_id action
  | DispatchToSocket socket action
  | DispatchToRoom string action
  | DispatchToServer action
  | SocketLeave socket string
  | SocketJoin socket string
  | UserLeaveRoom user_id string
  | UserJoinRoom user_id string
  | AbilityLoad ref
  | SkillLoad ref
  | LinkCharacter string ref
  | UnlinkCharacter string ref
  | DbSave ref
  | SaveInventory ref
  | ItemDrop string int int nat
  | MapUpdateClient user_id
  | LoadCharacterInventory ref

datatype error = TypeError | Error string

record cooldown =
  cd_character :: ref
  cd_action :: string
  cd_started :: bool

section \<open>The state\<close>

text \<open>
  \<open>locations\<close> is the property \<open>this.locations\<close> of the character manager:
  \<open>None\<close> while the property is \<open>undefined\<close>, otherwise the object mapping a cell
  key to the array of its occupants.
\<close>

record game =
  heap :: "ref \<Rightarrow> character"
  characters :: "ref list"
  locations :: "(string \<rightharpoonup> ref list) option"
  cooldowns :: "cooldown list"
  calls :: "call list"

text \<open>
  The state after \<open>new CharacterManager(Game)\<close> over a store of objects: the constructor
  assigns \<open>this.Game\<close> and \<open>this.characters = []\<close>, logs and registers two listeners;
  it assigns no \<open>locations\<close> property.
\<close>

definition constructor :: "(ref \<Rightarrow> character) \<Rightarrow> game" where
  "constructor h =
     \<lparr>heap = h, characters = [], locations = None, cooldowns = [], calls = []\<rparr>"

definition emit :: "call list \<Rightarrow> game \<Rightarrow> game" where
  "emit cs g = g\<lparr>calls := calls g @ cs\<rparr>"

subsection \<open>Lookups\<close>

definition get :: "game \<Rightarrow> user_id \<Rightarrow> ref option" where
  "get g uid =
     (if \<not> truthy uid then None
      else List.find (\<lambda>obj. user_id (heap g obj) = uid) (characters g))"

section \<open>The grid index\<close>

text \<open>
  Both operations start by reading \<open>this.locations[key]\<close>, which throws a TypeError
  when \<open>this.locations\<close> is undefined. The result is the state after the call and the
  error thrown, if any. An empty array is truthy, so only a missing cell is created.
\<close>

definition removeFromGrid :: "game \<Rightarrow> location \<Rightarrow> ref \<Rightarrow> game \<times> error option" where
  "removeFromGrid g position character =
     (case locations g of
        None \<Rightarrow> (g, Some TypeError)
      | Some locs \<Rightarrow>
          (case locs (location_key position) of
             None \<Rightarrow> (g, None)
           | Some playersInGrid \<Rightarrow>
               (case findIndex (\<lambda>char. user_id (heap g char) = user_id (heap g character))
                       playersInGrid of
                  None \<Rightarrow> (g, None)
                | Some index \<Rightarrow>
                    (g\<lparr>locations := Some (locs(location_key position \<mapsto>
                          take index playersInGrid @ drop (Suc index) playersInGrid))\<rparr>,
                     None))))"

definition addToGrid :: "game \<Rightarrow> location \<Rightarrow> ref \<Rightarrow> game \<times> error option" where
  "addToGrid g position character =
     (case locations g of
        None \<Rightarrow> (g, Some TypeError)
      | Some locs \<Rightarrow>
          (let key = location_key position;
               locs1 = (if locs key = None then locs(key \<mapsto> []) else locs);
               cell = (case locs1 key of None \<Rightarrow> [] | Some cs \<Rightarrow> cs)
           in if findIndex (\<lambda>char. user_id (heap g char) = user_id (heap g character)) cell
                   \<noteq> None
              then (g\<lparr>locations := Some locs1\<rparr>, None)
              else (g\<lparr>locations := Some (locs1(key \<mapsto> cell @ [character]))\<rparr>, None)))"

text \<open>The character (compared by \<open>user_id\<close>, as the code does) is in the cell of that key.\<close>

definition in_cell :: "game \<Rightarrow> string \<Rightarrow> ref \<Rightarrow> bool" where
  "in_cell g key character =
     (case locations g of
        None \<Rightarrow> False
      | Some locs \<Rightarrow>
          (case locs key of
             None \<Rightarrow> False
           | Some cs \<Rightarrow> \<exists>r \<in> set cs. user_id (heap g r) = user_id (heap g character)))"

section \<open>Collaborators outside the character manager\<close>

text \<open>
  The answers of the collaborators whose code is not part of the character manager are
  parameters of the model:
  \<^item> \<open>ticksLeft\<close>: \<open>cooldownManager.ticksLeft(character, action)\<close>, which depends on
    the ledger and on the time that has passed;
  \<^item> \<open>validCell\<close>: whether the world has a cell at map, x, y;
  \<^item> \<open>mapGet\<close>: \<open>mapManager.get(map)\<close>, \<open>None\<close> for an unknown map;
  \<^item> \<open>die\<close>: \<open>character.die()\<close>, which may change any object of the store and returns
    the dropped loot;
  \<^item> \<open>factionGet\<close>: \<open>factionManager.get(faction_id)\<close>;
  \<^item> \<open>socketGet\<close>: \<open>socketManager.get(user_id)\<close>;
  \<^item> \<open>saveFails\<close>: whether persisting that character throws;
  \<^item> \<open>dbLoad\<close>: the \<open>Character\<close> built from the stored record of a user, if any.
\<close>

record game_map =
  map_id :: string
  respawn_x :: int
  respawn_y :: int

record loot =
  loot_items :: "nat list"
  loot_cash :: int
  loot_exp :: int
  loot_targetedBy :: "ref list"

record env =
  ticksLeft :: "cooldown list \<Rightarrow> ref \<Rightarrow> string \<Rightarrow> nat"
  validCell :: "string \<Rightarrow> int \<Rightarrow> int \<Rightarrow> bool"
  mapGet :: "string \<Rightarrow> game_map option"
  die :: "ref \<Rightarrow> (ref \<Rightarrow> character) \<Rightarrow> (ref \<Rightarrow> character) \<times> loot"
  factionGet :: "string \<Rightarrow> faction option"
  socketGet :: "user_id \<Rightarrow> socket option"
  saveFails :: "ref \<Rightarrow> bool"
  dbLoad :: "user_id \<Rightarrow> character option"

text \<open>
  Modelled from the spec: \<open>mapManager.isValidLocation\<close> (the map manager is not among
  the sources). The spec gives \<open>isValidLocation(map, x, y) \<rightarrow> location|invalid\<close>,
  resolving "destination validity against the world collaborator": the location asked
  about when the world has that cell, nothing otherwise.
\<close>

definition isValidLocation :: "env \<Rightarrow> string \<Rightarrow> int \<Rightarrow> int \<Rightarrow> location option" where
  "isValidLocation env m x y =
     (if validCell env m x y then Some \<lparr>loc_map = m, loc_x = x, loc_y = y\<rparr> else None)"

text \<open>
  Modelled from the spec: the cooldown manager (not among the sources). The spec:
  "\<open>reserve(character, action)\<close>: creates the ledger entry and returns a handle whose
  \<open>start()\<close> begins the timer". The handle is the position of the entry.
\<close>

definition cooldown_add :: "game \<Rightarrow> ref \<Rightarrow> string \<Rightarrow> nat \<times> game" where
  "cooldown_add g character act =
     (length (cooldowns g),
      g\<lparr>cooldowns := cooldowns g @
           [\<lparr>cd_character = character, cd_action = act, cd_started = False\<rparr>]\<rparr>)"

definition cooldown_start :: "game \<Rightarrow> nat \<Rightarrow> game" where
  "cooldown_start g handle =
     g\<lparr>cooldowns := map (\<lambda>(i, cd). if i = handle then cd\<lparr>cd_started := True\<rparr> else cd)
                         (enumerate 0 (cooldowns g))\<rparr>"

section \<open>Methods of the Character object\<close>

text \<open>
  Modelled from the spec: \<open>Character.getLocationId\<close> (the Character class is not among
  the sources). The spec: "Room identifier format: \<open>{map}_{y}_{x}\<close>", the format of
  the grid key.
\<close>

definition getLocationId :: "character \<Rightarrow> string" where
  "getLocationId ch = location_key (location ch)"

text \<open>
  Modelled from the spec: \<open>Character.updateLocation\<close>. The spec: "update the
  Character's location", "relocates the Character to the respawn point".
\<close>

definition updateLocation ::
  "(ref \<Rightarrow> character) \<Rightarrow> ref \<Rightarrow> string \<Rightarrow> int \<Rightarrow> int \<Rightarrow> (ref \<Rightarrow> character)" where
  "updateLocation h c m x y =
     h(c := (h c)\<lparr>location := \<lparr>loc_map = m, loc_x = x, loc_y = y\<rparr>\<rparr>)"

text \<open>
  Modelled from the spec: \<open>Character.gridLock\<close>. The spec calls \<open>targetedBy\<close> "a set
  of characters currently locking it from movement" and has \<open>manage\<close> transfer "the old
  session's \<open>targetedBy\<close> relations onto the incoming character": the locking character
  joins the set.
\<close>

definition gridLock :: "(ref \<Rightarrow> character) \<Rightarrow> ref \<Rightarrow> ref \<Rightarrow> (ref \<Rightarrow> character)" where
  "gridLock h c user =
     (if user \<in> set (targetedBy (h c)) then h
      else h(c := (h c)\<lparr>targetedBy := targetedBy (h c) @ [user]\<rparr>))"

text \<open>
  Modelled from the spec: \<open>Character.releaseTarget\<close>. The spec: "release the
  character's own outgoing target lock": the character leaves the \<open>targetedBy\<close> set of
  its target and has no target any more.
\<close>

definition releaseTarget :: "(ref \<Rightarrow> character) \<Rightarrow> ref \<Rightarrow> (ref \<Rightarrow> character)" where
  "releaseTarget h c =
     (case target (h c) of
        None \<Rightarrow> h
      | Some t \<Rightarrow>
          (let h1 = h(t := (h t)\<lparr>targetedBy := removeAll c (targetedBy (h t))\<rparr>)
           in h1(c := (h1 c)\<lparr>target := None\<rparr>)))"

text \<open>
  Modelled from the spec: \<open>Character.updateCash\<close> and \<open>Character.updateExp\<close>. The
  spec: every contributor "receives the cash split" and, if a player, "an experience
  update": the amount is added to the stat.
\<close>

definition updateCash :: "(ref \<Rightarrow> character) \<Rightarrow> ref \<Rightarrow> int \<Rightarrow> (ref \<Rightarrow> character)" where
  "updateCash h c amount = h(c := (h c)\<lparr>stats_money := stats_money (h c) + amount\<rparr>)"

definition updateExp :: "(ref \<Rightarrow> character) \<Rightarrow> ref \<Rightarrow> int \<Rightarrow> (ref \<Rightarrow> character)" where
  "updateExp h c amount = h(c := (h c)\<lparr>stats_exp := stats_exp (h c) + amount\<rparr>)"

text \<open>
  Modelled from the spec: \<open>Faction.linkCharacter\<close> and \<open>Faction.unlinkCharacter\<close>.
  The spec: "bidirectional bookkeeping between a Character and its Faction's
  online-member list; established/torn down exactly at Registry add/remove time". The
  roster belongs to the faction; the call is recorded and the character's side of the
  link is set or cleared.
\<close>

definition linkCharacter :: "game \<Rightarrow> faction \<Rightarrow> ref \<Rightarrow> game" where
  "linkCharacter g f c =
     emit [LinkCharacter (faction_id f) c]
       (g\<lparr>heap := (heap g)(c := (heap g c)\<lparr>char_faction := Some f\<rparr>)\<rparr>)"

definition unlinkCharacter :: "game \<Rightarrow> faction \<Rightarrow> ref \<Rightarrow> game" where
  "unlinkCharacter g f c =
     emit [UnlinkCharacter (faction_id f) c]
       (g\<lparr>heap := (heap g)(c := (heap g c)\<lparr>char_faction := None\<rparr>)\<rparr>)"

section \<open>The event helpers of the Game object\<close>

text \<open>
  \<open>newEvent(type, message, ignore)\<close> builds the event action; a call without an
  ignore list has the empty one here.
\<close>

definition eventToUser :: "user_id \<Rightarrow> string \<Rightarrow> string \<Rightarrow> game \<Rightarrow> game" where
  "eventToUser uid type message g = emit [DispatchToUser uid (NEW_EVENT type message [])] g"

definition eventToSocket :: "socket \<Rightarrow> string \<Rightarrow> string \<Rightarrow> game \<Rightarrow> game" where
  "eventToSocket sock type message g =
     emit [DispatchToSocket sock (NEW_EVENT type message [])] g"

definition eventToRoom :: "string \<Rightarrow> string \<Rightarrow> string \<Rightarrow> user_id list \<Rightarrow> game \<Rightarrow> game" where
  "eventToRoom room type message ignore g =
     emit [DispatchToRoom room (NEW_EVENT type message ignore)] g"

section \<open>The character manager\<close>

text \<open>
  \<open>updateClient(user_id, property = null)\<close>; every caller in the manager leaves
  \<open>property\<close> out, so the payload is the whole exported character.
\<close>

definition updateClient :: "game \<Rightarrow> user_id \<Rightarrow> game" where
  "updateClient g uid =
     (case get g uid of
        None \<Rightarrow> g
      | Some character \<Rightarrow> emit [DispatchToUser uid (UPDATE_CHARACTER (heap g character))] g)"

definition dispatchUpdatePlayerList :: "game \<Rightarrow> user_id \<Rightarrow> game" where
  "dispatchUpdatePlayerList g uid =
     (case get g uid of
        None \<Rightarrow> g
      | Some character \<Rightarrow>
          emit [DispatchToServer
                  (ADD_ONLINE_PLAYER (user_id (heap g character)) (name (heap g character))
                     (profile_image (heap g character)) (char_faction (heap g character)))] g)"

definition dispatchRemoveFromPlayerList :: "game \<Rightarrow> user_id \<Rightarrow> game" where
  "dispatchRemoveFromPlayerList g uid = emit [DispatchToServer (REMOVE_ONLINE_PLAYER uid)] g"

definition joinedGrid :: "character \<Rightarrow> action" where
  "joinedGrid ch = JOINED_GRID (name ch) (user_id ch)"

text \<open>
  The handlers \<open>catch (err) { this.Game.onError(err) }\<close> call a method that class
  \<open>Game\<close> does not define. Calling the undefined property throws a TypeError, so a
  failure caught by such a handler leaves the function with that TypeError.

  \<open>remove\<close>, \<open>manage\<close> and \<open>load\<close> are asynchronous. Each is modelled by its
  result, the state when its promise settles together with the error it rejects with,
  and by its points: the states in which it is suspended at an \<open>await\<close>, in order,
  where other handlers can run and look at the registry.
\<close>

text \<open>
  \<open>save(user_id)\<close>: the state after the call and the error thrown, if any. A failure
  of the storage is thrown by \<open>dbSave\<close>, before the inventory is saved. \<open>save\<close> is
  suspended while \<open>dbSave\<close> runs and again while \<open>saveInventory\<close> runs.
\<close>

definition save :: "env \<Rightarrow> game \<Rightarrow> user_id \<Rightarrow> game \<times> error option" where
  "save env g uid =
     (if \<not> truthy uid then (g, Some (Error ''No user_id supplied to the save() method''))
      else
        (case get g uid of
           None \<Rightarrow>
             (g, Some (Error (''No user found online, matching the user_id '' @
                               (case uid of None \<Rightarrow> ''undefined'' | Some s \<Rightarrow> s))))
         | Some character \<Rightarrow>
             if saveFails env character
             then (emit [DbSave character] g, Some (Error ''dbSave''))
             else (emit [DbSave character, SaveInventory character] g, None)))"


text \<open>
  \<open>remove(user_id)\<close>. When \<open>save\<close> throws, the handler throws in turn and nothing
  after it runs: no event, no unlinking, no change of the registry.
\<close>

definition remove :: "env \<Rightarrow> game \<Rightarrow> user_id \<Rightarrow> game \<times> error option" where
  "remove env g uid =
     (case get g uid of
        None \<Rightarrow> (g, None)
      | Some character \<Rightarrow>
          (case save env g (user_id (heap g character)) of
             (g1, Some err) \<Rightarrow> (g1, Some TypeError)
           | (g1, None) \<Rightarrow>
               (let g2 = eventToRoom (getLocationId (heap g1 character)) ''info''
                           (name (heap g1 character) @ '' disappears into a nearby building'')
                           [user_id (heap g1 character)] g1;
                    g3 = emit [DispatchToRoom (getLocationId (heap g2 character))
                                 (LEFT_GRID (user_id (heap g2 character)))] g2;
                    g4 = (case char_faction (heap g3 character) of
                            None \<Rightarrow> g3
                          | Some f \<Rightarrow> unlinkCharacter g3 f character);
                    g5 = g4\<lparr>characters :=
                              filter (\<lambda>obj. user_id (heap g4 obj) \<noteq> uid) (characters g4)\<rparr>
                in (dispatchRemoveFromPlayerList g5 uid, None))))"


text \<open>
  \<open>manage(character)\<close>. \<open>wasLoggedIn\<close> is the answer of
  \<open>socketManager.clearTimer(character.user_id)\<close>: whether a disconnect timer was
  pending for the user. \<open>transfer\<close> is the loop that locks the incoming character by
  everyone in the old session's \<open>targetedBy\<close>. When the awaited \<open>remove\<close> rejects,
  \<open>manage\<close> rejects before the incoming character is pushed. With no socket for the
  user, \<open>socket.join\<close> throws and so does the handler that catches it.
\<close>

definition transfer :: "game \<Rightarrow> ref \<Rightarrow> ref \<Rightarrow> game" where
  "transfer g character existing =
     g\<lparr>heap := fold (\<lambda>user h. gridLock h character user)
                   (targetedBy (heap g existing)) (heap g)\<rparr>"

definition manage :: "env \<Rightarrow> bool \<Rightarrow> game \<Rightarrow> ref \<Rightarrow> game \<times> error option" where
  "manage env wasLoggedIn g character =
     (let existingCharacter =
            List.find (\<lambda>obj. user_id (heap g obj) = user_id (heap g character)) (characters g);
          (g1, rejected) =
            (case existingCharacter of
               None \<Rightarrow> (g, None)
             | Some existing \<Rightarrow>
                 if wasLoggedIn
                 then remove env (transfer g character existing) (user_id (heap g character))
                 else (g, None))
      in case rejected of
           Some err \<Rightarrow> (g1, Some err)
         | None \<Rightarrow>
             (let g2 = emit [AbilityLoad character, SkillLoad character] g1;
                  g3 = (case factionGet env (char_faction_id (heap g2 character)) of
                          None \<Rightarrow> g2
                        | Some f \<Rightarrow> linkCharacter g2 f character);
                  g4 = g3\<lparr>characters := characters g3 @ [character]\<rparr>;
                  g5 = dispatchUpdatePlayerList g4 (user_id (heap g4 character));
                  g6 = eventToRoom (getLocationId (heap g5 character)) ''info''
                         (name (heap g5 character) @ '' emerges from a nearby building'')
                         [user_id (heap g5 character)] g5;
                  g7 = emit [DispatchToRoom (getLocationId (heap g6 character))
                               (joinedGrid (heap g6 character))] g6
              in case socketGet env (user_id (heap g7 character)) of
                   None \<Rightarrow> (g7, Some TypeError)
                 | Some sock \<Rightarrow>
                     (emit [SocketJoin sock (getLocationId (heap g7 character))] g7, None)))"






text \<open>
  \<open>getLocationList(map, x, y, ignore, toClient)\<close>: the references in internal mode,
  the name and user id of each listed character in client mode. \<open>None\<close> for \<open>x\<close>,
  \<open>y\<close> or \<open>ignore\<close> is the default \<open>null\<close>.
\<close>

definition getLocationList ::
  "game \<Rightarrow> string \<Rightarrow> int option \<Rightarrow> int option \<Rightarrow> user_id option \<Rightarrow> bool
     \<Rightarrow> ref list + (string \<times> user_id) list" where
  "getLocationList g m x y ignore toClient =
     (let players =
            (case (x, y) of
               (Some x', Some y') \<Rightarrow>
                 filter (\<lambda>obj. loc_map (location (heap g obj)) = m \<and>
                               loc_y (location (heap g obj)) = y' \<and>
                               loc_x (location (heap g obj)) = x') (characters g)
             | _ \<Rightarrow> filter (\<lambda>obj. loc_map (location (heap g obj)) = m) (characters g))
      in if \<not> toClient then Inl players
         else Inr (map (\<lambda>character. (name (heap g character), user_id (heap g character)))
                     (filter (\<lambda>obj. Some (user_id (heap g obj)) \<noteq> ignore \<and>
                                    \<not> hidden (heap g obj)) players)))"

subsection \<open>Movement\<close>

text \<open>
  The payload of a \<open>MOVE_CHARACTER\<close> action, \<open>{grid: 'y|x', direction: 1|-1}\<close>. The
  code tests \<open>direction === 1\<close> and treats every other value as \<open>-1\<close> for the
  direction names, while it adds the value as it is.
\<close>

datatype axis = AxisX | AxisY

record moveAction =
  grid :: axis
  direction :: int

text \<open>
  \<open>actionNewLocation[moveAction.grid] = actionNewLocation[moveAction.grid] +
  moveAction.direction\<close>, on a copy of the character's location.
\<close>

definition actionNewLocation :: "location \<Rightarrow> moveAction \<Rightarrow> location" where
  "actionNewLocation loc moveAction =
     (case grid moveAction of
        AxisX \<Rightarrow> loc\<lparr>loc_x := loc_x loc + direction moveAction\<rparr>
      | AxisY \<Rightarrow> loc\<lparr>loc_y := loc_y loc + direction moveAction\<rparr>)"

text \<open>The \<open>switch\<close> that sets \<open>directionOut\<close> and \<open>directionIn\<close>.\<close>

definition directionNames :: "moveAction \<Rightarrow> string \<times> string" where
  "directionNames moveAction =
     (case grid moveAction of
        AxisY \<Rightarrow> if direction moveAction = 1 then (''South'', ''North'')
                 else (''North'', ''South'')
      | AxisX \<Rightarrow> if direction moveAction = 1 then (''East'', ''West'')
                 else (''West'', ''East''))"

definition move :: "env \<Rightarrow> game \<Rightarrow> socket \<Rightarrow> moveAction \<Rightarrow> game" where
  "move env g sock moveAction =
     (case get g (socket_user sock) of
        None \<Rightarrow>
          eventToSocket sock ''error''
            ''You do not appear to be logged in any more. Please login again.'' g
      | Some character \<Rightarrow>
          if targetedBy (heap g character) \<noteq> [] then
            (let list = join (map (\<lambda>obj. name (heap g obj)) (targetedBy (heap g character))) '', ''
             in eventToSocket sock ''warning''
                  (''You can't move as the following players are aiming at you: '' @ list) g)
          else if hidden (heap g character) then
            eventToSocket sock ''warning''
              ''You can't move as long as you are hidden. type /unhide to come out of hiding.'' g
          else if ticksLeft env (cooldowns g) character ''move'' \<noteq> 0 then g
          else
            (let (newCooldown, g1) = cooldown_add g character ''move'';
                 dest = actionNewLocation (location (heap g1 character)) moveAction
             in case isValidLocation env (loc_map dest) (loc_x dest) (loc_y dest) of
                  None \<Rightarrow> g1
                | Some newLocation \<Rightarrow>
                    (let (directionOut, directionIn) = directionNames moveAction;
                         g2 = g1\<lparr>heap := releaseTarget (heap g1) character\<rparr>;
                         g3 = emit [SocketLeave sock (getLocationId (heap g2 character))] g2;
                         g4 = eventToRoom (getLocationId (heap g3 character)) ''info''
                                (name (heap g3 character) @ '' leaves to the '' @ directionOut)
                                [user_id (heap g3 character)] g3;
                         g5 = emit [DispatchToRoom (getLocationId (heap g4 character))
                                      (LEFT_GRID (user_id (heap g4 character)))] g4;
                         g6 = g5\<lparr>heap := updateLocation (heap g5) character (loc_map newLocation)
                                           (loc_x newLocation) (loc_y newLocation)\<rparr>;
                         g7 = eventToRoom (getLocationId (heap g6 character)) ''info''
                                (name (heap g6 character) @ '' strolls in from the '' @ directionIn)
                                [user_id (heap g6 character)] g6;
                         g8 = emit [DispatchToRoom (getLocationId (heap g7 character))
                                      (joinedGrid (heap g7 character)),
                                    SocketJoin sock (getLocationId (heap g7 character))] g7;
                         g9 = updateClient g8 (user_id (heap g8 character));
                         g10 = emit [MapUpdateClient (user_id (heap g9 character))] g9
                     in cooldown_start g10 newCooldown)))"

subsection \<open>Death\<close>

text \<open>
  One turn of the loop over \<open>droppedLoot.targetedBy\<close>: the cash for every
  contributor, the experience and a client update for a contributor with a user id.
\<close>

definition award :: "int \<Rightarrow> int \<Rightarrow> ref \<Rightarrow> game \<Rightarrow> game" where
  "award cashReward expReward char g =
     (let g1 = g\<lparr>heap := updateCash (heap g) char cashReward\<rparr>
      in if truthy (user_id (heap g1 char))
         then updateClient (g1\<lparr>heap := updateExp (heap g1) char expReward\<rparr>)
                (user_id (heap g1 char))
         else g1)"

text \<open>
  \<open>kill(user_id, killer)\<close>: the state after the call and either the error thrown or
  the room id returned. \<open>Math.floor\<close> of the quotient of two integers is \<open>div\<close> on
  \<open>int\<close>, which rounds down; with no contributor the two rewards are never used.
\<close>

definition kill :: "env \<Rightarrow> game \<Rightarrow> user_id \<Rightarrow> ref \<Rightarrow> game \<times> (error + string)" where
  "kill env g uid killer =
     (case get g uid of
        None \<Rightarrow> (g, Inl TypeError)
      | Some character \<Rightarrow>
          (let gameMap = mapGet env (loc_map (location (heap g character)));
               (h1, droppedLoot) = die env character (heap g);
               g1 = g\<lparr>heap := h1\<rparr>;
               oldLocationId = getLocationId (heap g1 character);
               oldLocation = location (heap g1 character)
           in case gameMap of
                None \<Rightarrow> (g1, Inl TypeError)
              | Some gm \<Rightarrow>
                  (let newLocation =
                         \<lparr>loc_map = map_id gm, loc_x = respawn_x gm, loc_y = respawn_y gm\<rparr>;
                       g2 = emit [UserLeaveRoom (user_id (heap g1 character))
                                    (getLocationId (heap g1 character)),
                                  DispatchToRoom (getLocationId (heap g1 character))
                                    (LEFT_GRID (user_id (heap g1 character)))] g1;
                       g3 = g2\<lparr>heap := updateLocation (heap g2) character (loc_map newLocation)
                                         (loc_x newLocation) (loc_y newLocation)\<rparr>;
                       g4 = emit (map (ItemDrop (loc_map oldLocation) (loc_x oldLocation)
                                         (loc_y oldLocation)) (loot_items droppedLoot)) g3;
                       cashReward =
                         loot_cash droppedLoot div int (length (loot_targetedBy droppedLoot));
                       expReward =
                         loot_exp droppedLoot div int (length (loot_targetedBy droppedLoot));
                       g5 = fold (award cashReward expReward) (loot_targetedBy droppedLoot) g4;
                       g6 = (if truthy (user_id (heap g5 killer))
                             then eventToUser (user_id (heap g5 killer)) ''info''
                                    (''You find '' @ show_int (loot_cash droppedLoot) @
                                     '' money on '' @ name (heap g5 character) @ '' body.'') g5
                             else g5);
                       g7 = emit [DispatchToRoom oldLocationId
                                    (UPDATE_GROUND_ITEMS (loc_map oldLocation) (loc_x oldLocation)
                                       (loc_y oldLocation)),
                                  DispatchToRoom (getLocationId (heap g6 character))
                                    (joinedGrid (heap g6 character)),
                                  UserJoinRoom (user_id (heap g6 character))
                                    (getLocationId (heap g6 character))] g6;
                       g8 = updateClient g7 (user_id (heap g7 character));
                       g9 = emit [MapUpdateClient (user_id (heap g8 character))] g8
                   in (g9, Inr oldLocationId))))"

section \<open>Properties stated about the operations\<close>

text \<open>
  All four preconditions of \<open>move\<close> hold for the character \<open>c\<close> of the requesting
  socket: it is online, nobody targets it, it is not hidden, and no move cooldown is left.
\<close>

definition may_move :: "env \<Rightarrow> game \<Rightarrow> socket \<Rightarrow> ref \<Rightarrow> bool" where
  "may_move env g sock c =
     (get g (socket_user sock) = Some c \<and> targetedBy (heap g c) = [] \<and>
      \<not> hidden (heap g c) \<and> ticksLeft env (cooldowns g) c ''move'' = 0)"

text \<open>One of the four preconditions of \<open>move\<close> fails.\<close>

definition precondition_fails :: "env \<Rightarrow> game \<Rightarrow> socket \<Rightarrow> bool" where
  "precondition_fails env g sock =
     (case get g (socket_user sock) of
        None \<Rightarrow> True
      | Some c \<Rightarrow> targetedBy (heap g c) \<noteq> [] \<or> hidden (heap g c) \<or>
                  ticksLeft env (cooldowns g) c ''move'' \<noteq> 0)"

text \<open>
  What a completed move from \<open>g\<close> to \<open>g'\<close> looks like from outside: the mover \<open>c\<close> is
  at \<open>dest\<close>; the calls made are, in order, leaving the old room, the "leaves" message
  and the departure to the old room, the "strolls in" message and the arrival to the
  new room, joining the new room, the mover's own exported state, and the refreshed
  surroundings. Both messages carry the mover's user id as the ignore list.
\<close>

definition moved :: "game \<Rightarrow> game \<Rightarrow> socket \<Rightarrow> ref \<Rightarrow> location \<Rightarrow> string \<Rightarrow> string \<Rightarrow> bool" where
  "moved g g' sock c dest directionOut directionIn =
     (location (heap g' c) = dest \<and>
      calls g' = calls g @
        [SocketLeave sock (location_key (location (heap g c))),
         DispatchToRoom (location_key (location (heap g c)))
           (NEW_EVENT ''info'' (name (heap g c) @ '' leaves to the '' @ directionOut)
              [user_id (heap g c)]),
         DispatchToRoom (location_key (location (heap g c))) (LEFT_GRID (user_id (heap g c))),
         DispatchToRoom (location_key dest)
           (NEW_EVENT ''info'' (name (heap g c) @ '' strolls in from the '' @ directionIn)
              [user_id (heap g c)]),
         DispatchToRoom (location_key dest) (JOINED_GRID (name (heap g c)) (user_id (heap g c))),
         SocketJoin sock (location_key dest),
         DispatchToUser (user_id (heap g c)) (UPDATE_CHARACTER (heap g' c)),
         MapUpdateClient (user_id (heap g c))])"

section \<open>A small world\<close>

text \<open>
  Two players and non-player characters in the city, whose cells are those with both
  coordinates between 0 and 6. Alice stands at x = 5, y = 5 and Bob at the eastern
  edge. A dying character drops all its cash and ten points of experience.
\<close>

definition npc :: character where
  "npc = \<lparr>user_id = None, name = ''Thug'', profile_image = [], char_faction_id = [],
           char_faction = None, location = \<lparr>loc_map = ''city'', loc_x = 5, loc_y = 5\<rparr>,
           targetedBy = [], target = None, hidden = False, stats_money = 0, stats_exp = 0\<rparr>"

definition alice :: character where
  "alice = npc\<lparr>user_id := Some ''u1'', name := ''Alice'', stats_money := 101\<rparr>"

definition bob :: character where
  "bob = npc\<lparr>user_id := Some ''u2'', name := ''Bob'',
              location := \<lparr>loc_map = ''city'', loc_x = 6, loc_y = 5\<rparr>\<rparr>"

definition store0 :: "ref \<Rightarrow> character" where
  "store0 = (\<lambda>r. npc)(0 := alice, 1 := bob)"

definition env0 :: env where
  "env0 = \<lparr>ticksLeft = (\<lambda>cds c a. 0),
            validCell = (\<lambda>m x y. m = ''city'' \<and> 0 \<le> x \<and> x \<le> 6 \<and> 0 \<le> y \<and> y \<le> 6),
            mapGet = (\<lambda>m. if m = ''city''
                           then Some \<lparr>map_id = ''city'', respawn_x = 1, respawn_y = 1\<rparr>
                           else None),
            die = (\<lambda>c h. (h(c := (h c)\<lparr>targetedBy := [], stats_money := 0\<rparr>),
                          \<lparr>loot_items = [7], loot_cash = stats_money (h c), loot_exp = 10,
                           loot_targetedBy = targetedBy (h c)\<rparr>)),
            factionGet = (\<lambda>f. None),
            socketGet = (\<lambda>u. if truthy u then Some \<lparr>socket_id = 1, socket_user = u\<rparr>
                               else None),
            saveFails = (\<lambda>c. False),
            dbLoad = (\<lambda>u. None)\<rparr>"

definition sock0 :: socket where
  "sock0 = \<lparr>socket_id = 1, socket_user = Some ''u1''\<rparr>"

definition sock1 :: socket where
  "sock1 = \<lparr>socket_id = 2, socket_user = Some ''u2''\<rparr>"

text \<open>Alice and Bob are online.\<close>

definition online0 :: game where
  "online0 = (constructor store0)\<lparr>characters := [0, 1]\<rparr>"

text \<open>Alice is online and Bob aims at her.\<close>

definition locked0 :: game where
  "locked0 = online0\<lparr>heap := store0(0 := alice\<lparr>targetedBy := [1]\<rparr>)\<rparr>"

text \<open>Alice and Bob are online and the grid index lists each of them in the cell of its location.\<close>

definition indexed0 :: game where
  "indexed0 = online0\<lparr>locations := Some [''city_5_5'' \<mapsto> [0], ''city_5_6'' \<mapsto> [1]]\<rparr>"

text \<open>Alice is online and hidden.\<close>

definition hidden0 :: game where
  "hidden0 = online0\<lparr>heap := store0(0 := alice\<lparr>hidden := True\<rparr>)\<rparr>"

text \<open>The same world while every move cooldown has three ticks left.\<close>

definition cooling0 :: env where
  "cooling0 = env0\<lparr>ticksLeft := (\<lambda>cds c a. 3)\<rparr>"

text \<open>A socket whose user has no character online.\<close>

definition sock9 :: socket where
  "sock9 = \<lparr>socket_id = 9, socket_user = Some ''u9''\<rparr>"

text \<open>
  At most one registered character per user id.
\<close>

definition unique_online :: "game \<Rightarrow> bool" where
  "unique_online g = distinct (map (\<lambda>r. user_id (heap g r)) (characters g))"










text \<open>Alice is online with 101 in cash; Bob and a non-player character aim at her.\<close>

definition fight0 :: game where
  "fight0 = online0\<lparr>heap := store0(0 := alice\<lparr>targetedBy := [1, 2]\<rparr>)\<rparr>"

text \<open>The state of \<open>kill\<close> after the loop over the contributors, for a victim \<open>c\<close> on the map
  \<open>gm\<close> whose \<open>die()\<close> left the store \<open>h1\<close> and the loot.\<close>

definition rewarded :: "game \<Rightarrow> ref \<Rightarrow> game_map \<Rightarrow> (ref \<Rightarrow> character) \<Rightarrow> loot \<Rightarrow> game" where
  "rewarded g c gm h1 droppedLoot =
     fold (award (loot_cash droppedLoot div int (length (loot_targetedBy droppedLoot)))
                 (loot_exp droppedLoot div int (length (loot_targetedBy droppedLoot))))
       (loot_targetedBy droppedLoot)
       (emit (map (ItemDrop (loc_map (location (h1 c))) (loc_x (location (h1 c)))
                     (loc_y (location (h1 c)))) (loot_items droppedLoot))
          ((emit [UserLeaveRoom (user_id (h1 c)) (getLocationId (h1 c)),
                  DispatchToRoom (getLocationId (h1 c)) (LEFT_GRID (user_id (h1 c)))]
              (g\<lparr>heap := h1\<rparr>))
           \<lparr>heap := updateLocation h1 c (map_id gm) (respawn_x gm) (respawn_y gm)\<rparr>))"

section \<open>Facts about the helpers\<close>

lemma findIndex_None_iff: "findIndex P xs = None \<longleftrightarrow> (\<forall>x \<in> set xs. \<not> P x)"
  by (induction xs) auto

lemma emit_fields [simp]:
  "heap (emit cs g) = heap g"
  "characters (emit cs g) = characters g"
  "locations (emit cs g) = locations g"
  "cooldowns (emit cs g) = cooldowns g"
  "calls (emit cs g) = calls g @ cs"
  by (simp_all add: emit_def)

lemma emit_emit: "emit cs (emit bs g) = emit (bs @ cs) g"
  by (simp add: emit_def)

lemma emit_Nil [simp]: "emit [] g = g"
  by (simp add: emit_def)

section \<open>The grid index: membership operations\<close>

lemma addToGrid_present:
  assumes "in_cell g (location_key p) c"
  shows "addToGrid g p c = (g, None)"
proof -
  from assms obtain locs cs where l: "locations g = Some locs"
    and k: "locs (location_key p) = Some cs"
    and e: "\<exists>r \<in> set cs. user_id (heap g r) = user_id (heap g c)"
    by (auto simp: in_cell_def split: option.splits)
  from e have f: "findIndex (\<lambda>char. user_id (heap g char) = user_id (heap g c)) cs \<noteq> None"
    by (simp add: findIndex_None_iff)
  have "g\<lparr>locations := Some locs\<rparr> = g"
    using l by simp
  with l k f show ?thesis
    by (simp add: addToGrid_def Let_def)
qed

lemma removeFromGrid_absent:
  assumes "\<not> in_cell g (location_key p) c"
  shows "fst (removeFromGrid g p c) = g"
proof (cases "locations g")
  case None
  then show ?thesis by (simp add: removeFromGrid_def)
next
  case (Some locs)
  show ?thesis
  proof (cases "locs (location_key p)")
    case None
    with Some show ?thesis by (simp add: removeFromGrid_def)
  next
    case (Some cs)
    with assms \<open>locations g = Some locs\<close>
    have "findIndex (\<lambda>char. user_id (heap g char) = user_id (heap g c)) cs = None"
      by (simp add: in_cell_def findIndex_None_iff)
    with Some \<open>locations g = Some locs\<close> show ?thesis
      by (simp add: removeFromGrid_def)
  qed
qed

lemma addToGrid_in_cell:
  assumes "locations g = Some locs"
  shows "in_cell (fst (addToGrid g p c)) (location_key p) c"
  using assms
  by (auto simp: addToGrid_def in_cell_def Let_def findIndex_None_iff split: option.splits)

text \<open>
  C8. \<open>addToGrid\<close> and \<open>removeFromGrid\<close> are idempotent membership operations on the
  cell keyed by map, y, x: adding a character that is already in the cell changes
  nothing and raises nothing, removing a character that is not in the cell (or whose
  cell does not exist) leaves the index, and the whole state, unchanged, and adding
  twice is adding once.
\<close>

theorem grid_membership_idempotent:
  "(in_cell g (location_key p) c \<longrightarrow> addToGrid g p c = (g, None)) \<and>
   (\<not> in_cell g (location_key p) c \<longrightarrow> fst (removeFromGrid g p c) = g) \<and>
   addToGrid (fst (addToGrid g p c)) p c = (fst (addToGrid g p c), snd (addToGrid g p c))"
proof (intro conjI impI)
  show "addToGrid (fst (addToGrid g p c)) p c = (fst (addToGrid g p c), snd (addToGrid g p c))"
  proof (cases "locations g")
    case None
    then show ?thesis by (simp add: addToGrid_def)
  next
    case (Some locs)
    then have "snd (addToGrid g p c) = None"
      by (simp add: addToGrid_def Let_def)
    with addToGrid_in_cell [OF Some, of p c] show ?thesis
      by (simp add: addToGrid_present)
  qed
qed (simp_all add: addToGrid_present removeFromGrid_absent)

lemma location_key_5_5:
  "location_key \<lparr>loc_map = ''city'', loc_x = 5, loc_y = 5\<rparr> = ''city_5_5''"
  by (simp add: location_key_def show_int_def show_nat.simps digit_char_def)

theorem grid_membership_idempotent_witness:
  "in_cell indexed0 ''city_5_5'' 0 \<and>
   addToGrid indexed0 \<lparr>loc_map = ''city'', loc_x = 5, loc_y = 5\<rparr> 0 = (indexed0, None) \<and>
   \<not> in_cell indexed0 ''city_5_5'' 1 \<and>
   fst (removeFromGrid indexed0 \<lparr>loc_map = ''city'', loc_x = 5, loc_y = 5\<rparr> 1) = indexed0"
proof -
  have a: "in_cell indexed0 ''city_5_5'' 0"
    by (simp add: in_cell_def indexed0_def)
  have b: "\<not> in_cell indexed0 ''city_5_5'' 1"
    by (simp add: in_cell_def indexed0_def online0_def constructor_def store0_def alice_def
        bob_def npc_def)
  from a b
    grid_membership_idempotent [of indexed0 "\<lparr>loc_map = ''city'', loc_x = 5, loc_y = 5\<rparr>" 0]
    grid_membership_idempotent [of indexed0 "\<lparr>loc_map = ''city'', loc_x = 5, loc_y = 5\<rparr>" 1]
  show ?thesis
    by (simp add: location_key_5_5)
qed

text \<open>
  C9. The constructor initialises \<open>characters\<close> and leaves \<open>locations\<close> undefined, so on
  a fresh manager \<open>addToGrid\<close> and \<open>removeFromGrid\<close> throw a TypeError, for every
  position and character, and perform no membership operation.
\<close>

theorem fresh_manager_grid_throws:
  "characters (constructor h) = [] \<and> locations (constructor h) = None \<and>
   addToGrid (constructor h) p c = (constructor h, Some TypeError) \<and>
   removeFromGrid (constructor h) p c = (constructor h, Some TypeError)"
  by (simp add: constructor_def addToGrid_def removeFromGrid_def)

section \<open>Frame lemmas\<close>


lemma get_cong:
  "characters g' = characters g \<Longrightarrow> (\<And>r. user_id (heap g' r) = user_id (heap g r)) \<Longrightarrow>
   get g' u = get g u"
  by (simp add: get_def)

lemma event_fields [simp]:
  "heap (eventToSocket s t m g) = heap g"
  "characters (eventToSocket s t m g) = characters g"
  "locations (eventToSocket s t m g) = locations g"
  "cooldowns (eventToSocket s t m g) = cooldowns g"
  "calls (eventToSocket s t m g) = calls g @ [DispatchToSocket s (NEW_EVENT t m [])]"
  "heap (eventToRoom r t m i g) = heap g"
  "characters (eventToRoom r t m i g) = characters g"
  "locations (eventToRoom r t m i g) = locations g"
  "cooldowns (eventToRoom r t m i g) = cooldowns g"
  "calls (eventToRoom r t m i g) = calls g @ [DispatchToRoom r (NEW_EVENT t m i)]"
  "heap (eventToUser u t m g) = heap g"
  "characters (eventToUser u t m g) = characters g"
  "locations (eventToUser u t m g) = locations g"
  "cooldowns (eventToUser u t m g) = cooldowns g"
  "calls (eventToUser u t m g) = calls g @ [DispatchToUser u (NEW_EVENT t m [])]"
  by (simp_all add: eventToSocket_def eventToRoom_def eventToUser_def)

lemma updateClient_fields [simp]:
  "heap (updateClient g u) = heap g"
  "characters (updateClient g u) = characters g"
  "locations (updateClient g u) = locations g"
  "cooldowns (updateClient g u) = cooldowns g"
  by (simp_all add: updateClient_def split: option.splits)

lemma cooldown_start_fields [simp]:
  "heap (cooldown_start g n) = heap g"
  "characters (cooldown_start g n) = characters g"
  "locations (cooldown_start g n) = locations g"
  "calls (cooldown_start g n) = calls g"
  by (simp_all add: cooldown_start_def)

lemma releaseTarget_keeps [simp]:
  "user_id (releaseTarget h c r) = user_id (h r)"
  "name (releaseTarget h c r) = name (h r)"
  "location (releaseTarget h c r) = location (h r)"
  "hidden (releaseTarget h c r) = hidden (h r)"
  by (simp_all add: releaseTarget_def Let_def split: option.splits)

lemma updateLocation_keeps [simp]:
  "user_id (updateLocation h c m x y r) = user_id (h r)"
  "name (updateLocation h c m x y r) = name (h r)"
  "targetedBy (updateLocation h c m x y r) = targetedBy (h r)"
  "stats_money (updateLocation h c m x y r) = stats_money (h r)"
  "stats_exp (updateLocation h c m x y r) = stats_exp (h r)"
  "location (updateLocation h c m x y r) =
     (if r = c then \<lparr>loc_map = m, loc_x = x, loc_y = y\<rparr> else location (h r))"
  by (simp_all add: updateLocation_def)


lemma join_names:
  "x \<in> set xs \<Longrightarrow> \<exists>u v. join xs sep = u @ x @ v"
proof (induction xs sep rule: join.induct)
  case (1 sep)
  then show ?case by simp
next
  case (2 s sep)
  then show ?case by (metis append_Nil append_Nil2 join.simps(2) set_ConsD empty_iff empty_set)
next
  case (3 s t ss sep)
  show ?case
  proof (cases "x = s")
    case True
    then show ?thesis by (metis append_Nil join.simps(3))
  next
    case False
    with 3 obtain u v where "join (t # ss) sep = u @ x @ v" by auto
    then have "join (s # t # ss) sep = (s @ sep @ u) @ x @ v" by simp
    then show ?thesis by blast
  qed
qed

lemma loc_eta [simp]: "\<lparr>loc_map = loc_map d, loc_x = loc_x d, loc_y = loc_y d\<rparr> = (d::location)"
  by simp

lemma get_SomeD:
  "get g u = Some c \<Longrightarrow> user_id (heap g c) = u \<and> truthy u \<and> c \<in> set (characters g)"
  by (auto simp: get_def find_Some_iff split: if_splits)

lemma cooldown_add_fields [simp]:
  "heap (snd (cooldown_add g c a)) = heap g"
  "characters (snd (cooldown_add g c a)) = characters g"
  "locations (snd (cooldown_add g c a)) = locations g"
  "calls (snd (cooldown_add g c a)) = calls g"
  by (simp_all add: cooldown_add_def)

lemma move_valid:
  assumes c: "get g (socket_user s) = Some c" and t: "targetedBy (heap g c) = []"
    and h: "\<not> hidden (heap g c)" and cd: "ticksLeft env (cooldowns g) c ''move'' = 0"
    and v: "validCell env (loc_map dest) (loc_x dest) (loc_y dest)"
    and d: "dest = actionNewLocation (location (heap g c)) a"
  shows "location (heap (move env g s a) c) = dest"
    and "calls (move env g s a) = calls g @
       [SocketLeave s (location_key (location (heap g c))),
        DispatchToRoom (location_key (location (heap g c)))
          (NEW_EVENT ''info'' (name (heap g c) @ '' leaves to the '' @ fst (directionNames a))
             [user_id (heap g c)]),
        DispatchToRoom (location_key (location (heap g c))) (LEFT_GRID (user_id (heap g c))),
        DispatchToRoom (location_key dest)
          (NEW_EVENT ''info'' (name (heap g c) @ '' strolls in from the '' @ snd (directionNames a))
             [user_id (heap g c)]),
        DispatchToRoom (location_key dest) (JOINED_GRID (name (heap g c)) (user_id (heap g c))),
        SocketJoin s (location_key dest),
        DispatchToUser (user_id (heap g c)) (UPDATE_CHARACTER (heap (move env g s a) c)),
        MapUpdateClient (user_id (heap g c))]"
proof -
  from get_SomeD [OF c] have u: "user_id (heap g c) = socket_user s" by simp
  have iv: "isValidLocation env (loc_map dest) (loc_x dest) (loc_y dest) = Some dest"
    using v by (simp add: isValidLocation_def)
  define g1 where "g1 = snd (cooldown_add g c ''move'')"
  define g8 where "g8 = emit [DispatchToRoom (location_key dest) (JOINED_GRID (name (heap g c)) (user_id (heap g c))),
        SocketJoin s (location_key dest)] (eventToRoom (location_key dest) ''info'' (name (heap g c) @ '' strolls in from the '' @ snd (directionNames a))
             [user_id (heap g c)] ((emit [DispatchToRoom (location_key (location (heap g c))) (LEFT_GRID (user_id (heap g c)))]
      (eventToRoom (location_key (location (heap g c))) ''info'' (name (heap g c) @ '' leaves to the '' @ fst (directionNames a))
             [user_id (heap g c)] (emit [SocketLeave s (location_key (location (heap g c)))] (g1\<lparr>heap := releaseTarget (heap g1) c\<rparr>))))
       \<lparr>heap := updateLocation (releaseTarget (heap g1) c) c (loc_map dest) (loc_x dest) (loc_y dest)\<rparr>))"
  have gg: "get g8 (socket_user s) = Some c"
    unfolding c [symmetric] by (rule get_cong) (simp_all add: g8_def g1_def)
  have mv: "move env g s a = cooldown_start (emit [MapUpdateClient (user_id (heap g c))] (updateClient g8 (socket_user s))) (length (cooldowns g))"
    using c t h cd iv d [symmetric] u
    by (simp add: move_def Let_def cooldown_add_def g8_def g1_def getLocationId_def joinedGrid_def split: prod.splits)
  show "location (heap (move env g s a) c) = dest"
    by (simp add: mv g8_def)
  show "calls (move env g s a) = calls g @
       [SocketLeave s (location_key (location (heap g c))),
        DispatchToRoom (location_key (location (heap g c)))
          (NEW_EVENT ''info'' (name (heap g c) @ '' leaves to the '' @ fst (directionNames a))
             [user_id (heap g c)]),
        DispatchToRoom (location_key (location (heap g c))) (LEFT_GRID (user_id (heap g c))),
        DispatchToRoom (location_key dest)
          (NEW_EVENT ''info'' (name (heap g c) @ '' strolls in from the '' @ snd (directionNames a))
             [user_id (heap g c)]),
        DispatchToRoom (location_key dest) (JOINED_GRID (name (heap g c)) (user_id (heap g c))),
        SocketJoin s (location_key dest),
        DispatchToUser (user_id (heap g c)) (UPDATE_CHARACTER (heap (move env g s a) c)),
        MapUpdateClient (user_id (heap g c))]"
    by (simp add: mv updateClient_def gg u) (simp add: g8_def g1_def u)
qed

lemma move_moved:
  assumes "may_move env g s c"
    and "validCell env (loc_map dest) (loc_x dest) (loc_y dest)"
    and "dest = actionNewLocation (location (heap g c)) a"
  shows "moved g (move env g s a) s c dest (fst (directionNames a)) (snd (directionNames a))"
proof -
  from assms(1) have p: "get g (socket_user s) = Some c" "targetedBy (heap g c) = []"
    "\<not> hidden (heap g c)" "ticksLeft env (cooldowns g) c ''move'' = 0"
    by (simp_all add: may_move_def)
  from move_valid [OF p assms(2,3)] show ?thesis
    unfolding moved_def by (intro conjI)
qed

section \<open>Movement\<close>

lemma online0_facts:
  "characters online0 = [0, 1]"
  "heap online0 = store0"
  "cooldowns online0 = []"
  "locations online0 = None"
  "calls online0 = []"
  by (simp_all add: online0_def constructor_def)

lemma may_move0: "may_move env0 online0 sock0 0"
  by (simp add: may_move_def online0_facts get_def truthy_def sock0_def store0_def alice_def npc_def env0_def)

text \<open>
  C5. A character whose \<open>targetedBy\<close> is not empty cannot move: \<open>move\<close> changes no
  location, and its only effect is one warning event to the requesting socket, whose
  message contains the name of every character that targets the mover.
\<close>

theorem move_locked:
  assumes "get g (socket_user s) = Some c" and "targetedBy (heap g c) \<noteq> []"
  shows "\<exists>msg. move env g s a = emit [DispatchToSocket s (NEW_EVENT ''warning'' msg [])] g \<and>
           (\<forall>obj \<in> set (targetedBy (heap g c)). \<exists>u v. msg = u @ name (heap g obj) @ v) \<and>
           (\<forall>r. location (heap (move env g s a) r) = location (heap g r))"
proof -
  let ?names = "map (\<lambda>obj. name (heap g obj)) (targetedBy (heap g c))"
  let ?msg = "''You can't move as the following players are aiming at you: '' @ join ?names '', ''"
  have m: "move env g s a = emit [DispatchToSocket s (NEW_EVENT ''warning'' ?msg [])] g"
    using assms by (simp add: move_def eventToSocket_def)
  have n: "\<exists>u v. ?msg = u @ name (heap g obj) @ v" if "obj \<in> set (targetedBy (heap g c))" for obj
  proof -
    from that have "name (heap g obj) \<in> set ?names" by auto
    from join_names [OF this, of "'', ''"] obtain u v
      where "join ?names '', '' = u @ name (heap g obj) @ v" by blast
    then have "?msg = (''You can't move as the following players are aiming at you: '' @ u)
        @ name (heap g obj) @ v" by simp
    then show ?thesis by blast
  qed
  show ?thesis
    apply (rule exI [of _ ?msg])
    using m n by simp
qed

theorem move_locked_witness:
  "get locked0 (socket_user sock0) = Some 0 \<and> targetedBy (heap locked0 0) \<noteq> [] \<and>
   (\<exists>msg. move env0 locked0 sock0 \<lparr>grid = AxisX, direction = 1\<rparr> =
            emit [DispatchToSocket sock0 (NEW_EVENT ''warning'' msg [])] locked0 \<and>
          (\<forall>obj \<in> set (targetedBy (heap locked0 0)).
             \<exists>u v. msg = u @ name (heap locked0 obj) @ v) \<and>
          (\<forall>r. location (heap (move env0 locked0 sock0 \<lparr>grid = AxisX, direction = 1\<rparr>) r) =
               location (heap locked0 r)))"
proof -
  have a: "get locked0 (socket_user sock0) = Some 0"
    by (simp add: locked0_def online0_facts get_def truthy_def sock0_def alice_def npc_def)
  have b: "targetedBy (heap locked0 0) \<noteq> []"
    by (simp add: locked0_def)
  from a b move_locked [OF a b, of env0 "\<lparr>grid = AxisX, direction = 1\<rparr>"] show ?thesis
    by (intro conjI)
qed

text \<open>
  C6. A successful move along y by +1 tells the old room "leaves to the South" and the
  new room "strolls in from the North", by -1 North and South; along x by +1 East and
  West, by -1 West and East. Both messages exclude the mover, the location changes by
  exactly one on the chosen axis, and the mover is sent its own updated state.
\<close>

theorem move_success:
  assumes "may_move env g s c"
    and "validCell env (loc_map dest) (loc_x dest) (loc_y dest)"
  shows "(grid a = AxisY \<and> direction a = 1 \<and> dest = (location (heap g c))\<lparr>loc_y := loc_y (location (heap g c)) + 1\<rparr>
           \<longrightarrow> moved g (move env g s a) s c dest ''South'' ''North'') \<and>
         (grid a = AxisY \<and> direction a = - 1 \<and> dest = (location (heap g c))\<lparr>loc_y := loc_y (location (heap g c)) - 1\<rparr>
           \<longrightarrow> moved g (move env g s a) s c dest ''North'' ''South'') \<and>
         (grid a = AxisX \<and> direction a = 1 \<and> dest = (location (heap g c))\<lparr>loc_x := loc_x (location (heap g c)) + 1\<rparr>
           \<longrightarrow> moved g (move env g s a) s c dest ''East'' ''West'') \<and>
         (grid a = AxisX \<and> direction a = - 1 \<and> dest = (location (heap g c))\<lparr>loc_x := loc_x (location (heap g c)) - 1\<rparr>
           \<longrightarrow> moved g (move env g s a) s c dest ''West'' ''East'')"
proof (intro conjI impI)
  assume "grid a = AxisY \<and> direction a = 1 \<and> dest = (location (heap g c))\<lparr>loc_y := loc_y (location (heap g c)) + 1\<rparr>"
  then have "dest = actionNewLocation (location (heap g c)) a" "directionNames a = (''South'', ''North'')"
    by (simp_all add: actionNewLocation_def directionNames_def)
  with move_moved [OF assms, of a] show "moved g (move env g s a) s c dest ''South'' ''North''" by simp
next
  assume "grid a = AxisY \<and> direction a = - 1 \<and> dest = (location (heap g c))\<lparr>loc_y := loc_y (location (heap g c)) - 1\<rparr>"
  then have "dest = actionNewLocation (location (heap g c)) a" "directionNames a = (''North'', ''South'')"
    by (simp_all add: actionNewLocation_def directionNames_def)
  with move_moved [OF assms, of a] show "moved g (move env g s a) s c dest ''North'' ''South''" by simp
next
  assume "grid a = AxisX \<and> direction a = 1 \<and> dest = (location (heap g c))\<lparr>loc_x := loc_x (location (heap g c)) + 1\<rparr>"
  then have "dest = actionNewLocation (location (heap g c)) a" "directionNames a = (''East'', ''West'')"
    by (simp_all add: actionNewLocation_def directionNames_def)
  with move_moved [OF assms, of a] show "moved g (move env g s a) s c dest ''East'' ''West''" by simp
next
  assume "grid a = AxisX \<and> direction a = - 1 \<and> dest = (location (heap g c))\<lparr>loc_x := loc_x (location (heap g c)) - 1\<rparr>"
  then have "dest = actionNewLocation (location (heap g c)) a" "directionNames a = (''West'', ''East'')"
    by (simp_all add: actionNewLocation_def directionNames_def)
  with move_moved [OF assms, of a] show "moved g (move env g s a) s c dest ''West'' ''East''" by simp
qed





theorem move_success_witness:
  "moved online0 (move env0 online0 sock0 \<lparr>grid = AxisX, direction = 1\<rparr>) sock0 0
     \<lparr>loc_map = ''city'', loc_x = 6, loc_y = 5\<rparr> ''East'' ''West'' \<and>
   moved online0 (move env0 online0 sock0 \<lparr>grid = AxisX, direction = - 1\<rparr>) sock0 0
     \<lparr>loc_map = ''city'', loc_x = 4, loc_y = 5\<rparr> ''West'' ''East'' \<and>
   moved online0 (move env0 online0 sock0 \<lparr>grid = AxisY, direction = 1\<rparr>) sock0 0
     \<lparr>loc_map = ''city'', loc_x = 5, loc_y = 6\<rparr> ''South'' ''North'' \<and>
   moved online0 (move env0 online0 sock0 \<lparr>grid = AxisY, direction = - 1\<rparr>) sock0 0
     \<lparr>loc_map = ''city'', loc_x = 5, loc_y = 4\<rparr> ''North'' ''South''"
proof -
  have l: "location (heap online0 0) = \<lparr>loc_map = ''city'', loc_x = 5, loc_y = 5\<rparr>"
    by (simp add: online0_facts store0_def alice_def npc_def)
  have v: "validCell env0 ''city'' 6 5" "validCell env0 ''city'' 4 5" "validCell env0 ''city'' 5 6" "validCell env0 ''city'' 5 4"
    by (simp_all add: env0_def)
  show ?thesis
    using move_success [OF may_move0, of "\<lparr>loc_map = ''city'', loc_x = 6, loc_y = 5\<rparr>" "\<lparr>grid = AxisX, direction = 1\<rparr>"]
      move_success [OF may_move0, of "\<lparr>loc_map = ''city'', loc_x = 4, loc_y = 5\<rparr>" "\<lparr>grid = AxisX, direction = - 1\<rparr>"]
      move_success [OF may_move0, of "\<lparr>loc_map = ''city'', loc_x = 5, loc_y = 6\<rparr>" "\<lparr>grid = AxisY, direction = 1\<rparr>"]
      move_success [OF may_move0, of "\<lparr>loc_map = ''city'', loc_x = 5, loc_y = 4\<rparr>" "\<lparr>grid = AxisY, direction = - 1\<rparr>"]
    by (simp add: l v)
qed

lemma move_not_logged_in:
  assumes "get g (socket_user s) = None"
  shows "move env g s a =
     emit [DispatchToSocket s (NEW_EVENT ''error''
             ''You do not appear to be logged in any more. Please login again.'' [])] g"
  using assms by (simp add: move_def eventToSocket_def)

lemma move_targeted:
  assumes "get g (socket_user s) = Some c" and "targetedBy (heap g c) \<noteq> []"
  shows "move env g s a =
     emit [DispatchToSocket s (NEW_EVENT ''warning''
             (''You can't move as the following players are aiming at you: '' @
              join (map (\<lambda>obj. name (heap g obj)) (targetedBy (heap g c))) '', '') [])] g"
  using assms by (simp add: move_def eventToSocket_def)

lemma move_hidden:
  assumes "get g (socket_user s) = Some c" and "targetedBy (heap g c) = []"
    and "hidden (heap g c)"
  shows "move env g s a =
     emit [DispatchToSocket s (NEW_EVENT ''warning''
             ''You can't move as long as you are hidden. type /unhide to come out of hiding.''
             [])] g"
  using assms by (simp add: move_def eventToSocket_def)

lemma move_cooling:
  assumes "get g (socket_user s) = Some c" and "targetedBy (heap g c) = []"
    and "\<not> hidden (heap g c)" and "ticksLeft env (cooldowns g) c ''move'' \<noteq> 0"
  shows "move env g s a = g"
  using assms by (simp add: move_def)

lemma move_invalid:
  assumes "may_move env g s c"
    and "isValidLocation env (loc_map (actionNewLocation (location (heap g c)) a))
           (loc_x (actionNewLocation (location (heap g c)) a))
           (loc_y (actionNewLocation (location (heap g c)) a)) = None"
  shows "move env g s a =
     g\<lparr>cooldowns := cooldowns g @
          [\<lparr>cd_character = c, cd_action = ''move'', cd_started = False\<rparr>]\<rparr>"
  using assms by (simp add: move_def may_move_def cooldown_add_def Let_def)

lemma may_move1: "may_move env0 online0 sock1 1"
  by (simp add: may_move_def online0_facts get_def truthy_def sock1_def store0_def alice_def
      bob_def npc_def env0_def)

lemma bob_east_invalid:
  "isValidLocation env0
     (loc_map (actionNewLocation (location (heap online0 1)) \<lparr>grid = AxisX, direction = 1\<rparr>))
     (loc_x (actionNewLocation (location (heap online0 1)) \<lparr>grid = AxisX, direction = 1\<rparr>))
     (loc_y (actionNewLocation (location (heap online0 1)) \<lparr>grid = AxisX, direction = 1\<rparr>)) = None"
  by (simp add: isValidLocation_def actionNewLocation_def online0_facts store0_def bob_def npc_def
      env0_def)

text \<open>
  What a rejected move changes. The session, lock, hidden and cooldown checks come
  before any mutation: a move rejected by one of them changes nothing but the list of
  calls made. The destination is resolved after the cooldown entry has been reserved:
  when it is invalid, \<open>move\<close> makes no call and changes no object, registry entry or
  grid cell, and the reserved, unstarted entry stays in the ledger.
\<close>

lemma move_rejected:
  "(precondition_fails env g s \<longrightarrow> (\<exists>cs. move env g s a = emit cs g)) \<and>
   (may_move env g s c \<and>
    isValidLocation env (loc_map (actionNewLocation (location (heap g c)) a))
      (loc_x (actionNewLocation (location (heap g c)) a))
      (loc_y (actionNewLocation (location (heap g c)) a)) = None \<longrightarrow>
    move env g s a =
      g\<lparr>cooldowns := cooldowns g @
           [\<lparr>cd_character = c, cd_action = ''move'', cd_started = False\<rparr>]\<rparr>)"
proof (intro conjI impI)
  assume f: "precondition_fails env g s"
  show "\<exists>cs. move env g s a = emit cs g"
  proof (cases "get g (socket_user s)")
    case None
    from move_not_logged_in [OF this] show ?thesis by blast
  next
    case (Some c')
    consider "targetedBy (heap g c') \<noteq> []"
      | "targetedBy (heap g c') = []" "hidden (heap g c')"
      | "targetedBy (heap g c') = []" "\<not> hidden (heap g c')"
        "ticksLeft env (cooldowns g) c' ''move'' \<noteq> 0"
      using f Some by (auto simp: precondition_fails_def)
    then show ?thesis
    proof cases
      case 1
      from move_targeted [OF Some this] show ?thesis by blast
    next
      case 2
      from move_hidden [OF Some this] show ?thesis by blast
    next
      case 3
      from move_cooling [OF Some this] have "move env g s a = emit [] g" by simp
      then show ?thesis by blast
    qed
  qed
qed (simp add: move_invalid)

text \<open>
  C3 says that \<open>move\<close> checks every precondition before any mutation, so that a move to
  an invalid destination is a silent no-op that changes neither location, grid index
  nor cooldown ledger. The code does not do this: Bob stands at the eastern edge with
  all four preconditions met and moves east; the destination is invalid, no call is
  made and nobody has moved, but the ledger, empty before, now holds a reserved move
  cooldown for Bob that was never started.
\<close>

theorem move_invalid_destination_mutates:
  "may_move env0 online0 sock1 1 \<and>
   actionNewLocation (location (heap online0 1)) \<lparr>grid = AxisX, direction = 1\<rparr> =
     \<lparr>loc_map = ''city'', loc_x = 7, loc_y = 5\<rparr> \<and>
   isValidLocation env0 ''city'' 7 5 = None \<and>
   calls (move env0 online0 sock1 \<lparr>grid = AxisX, direction = 1\<rparr>) = calls online0 \<and>
   heap (move env0 online0 sock1 \<lparr>grid = AxisX, direction = 1\<rparr>) = heap online0 \<and>
   cooldowns online0 = [] \<and>
   cooldowns (move env0 online0 sock1 \<lparr>grid = AxisX, direction = 1\<rparr>) =
     [\<lparr>cd_character = 1, cd_action = ''move'', cd_started = False\<rparr>]"
proof -
  have "isValidLocation env0 ''city'' 7 5 = None"
    by (simp add: isValidLocation_def env0_def)
  moreover have "actionNewLocation (location (heap online0 1)) \<lparr>grid = AxisX, direction = 1\<rparr> =
     \<lparr>loc_map = ''city'', loc_x = 7, loc_y = 5\<rparr>"
    by (simp add: actionNewLocation_def online0_facts store0_def bob_def npc_def)
  moreover have "move env0 online0 sock1 \<lparr>grid = AxisX, direction = 1\<rparr> =
     online0\<lparr>cooldowns := cooldowns online0 @
       [\<lparr>cd_character = 1, cd_action = ''move'', cd_started = False\<rparr>]\<rparr>"
    by (rule move_invalid [OF may_move1 bob_east_invalid])
  ultimately show ?thesis using may_move1 by (simp add: online0_facts)
qed

text \<open>
  C4, as the code has it. A move rejected because the socket has no online character
  sends one error event to the requesting socket; rejected because the character is
  targeted or hidden, one warning event to the requesting socket; rejected because
  the move cooldown is still active, nothing at all; none of these four changes any
  other part of the state. A move rejected because the destination is invalid makes
  no call either and changes no object, registry entry or grid cell.
\<close>

theorem move_rejections:
  "(get g (socket_user s) = None \<longrightarrow>
      move env g s a =
        emit [DispatchToSocket s (NEW_EVENT ''error''
                ''You do not appear to be logged in any more. Please login again.'' [])] g) \<and>
   (get g (socket_user s) = Some c \<and> targetedBy (heap g c) \<noteq> [] \<longrightarrow>
      (\<exists>msg. move env g s a = emit [DispatchToSocket s (NEW_EVENT ''warning'' msg [])] g)) \<and>
   (get g (socket_user s) = Some c \<and> targetedBy (heap g c) = [] \<and> hidden (heap g c) \<longrightarrow>
      move env g s a =
        emit [DispatchToSocket s (NEW_EVENT ''warning''
                ''You can't move as long as you are hidden. type /unhide to come out of hiding.''
                [])] g) \<and>
   (get g (socket_user s) = Some c \<and> targetedBy (heap g c) = [] \<and> \<not> hidden (heap g c) \<and>
    ticksLeft env (cooldowns g) c ''move'' \<noteq> 0 \<longrightarrow>
      move env g s a = g) \<and>
   (may_move env g s c \<and>
    isValidLocation env (loc_map (actionNewLocation (location (heap g c)) a))
      (loc_x (actionNewLocation (location (heap g c)) a))
      (loc_y (actionNewLocation (location (heap g c)) a)) = None \<longrightarrow>
      calls (move env g s a) = calls g \<and> heap (move env g s a) = heap g \<and>
      characters (move env g s a) = characters g \<and> locations (move env g s a) = locations g)"
  using move_not_logged_in [of g s env a] move_targeted [of g s c env a]
    move_hidden [of g s c env a] move_cooling [of g s c env a]
    move_invalid [of env g s c a]
  by auto

theorem move_rejections_witness:
  "get online0 (socket_user sock9) = None \<and>
   move env0 online0 sock9 \<lparr>grid = AxisX, direction = 1\<rparr> =
     emit [DispatchToSocket sock9 (NEW_EVENT ''error''
             ''You do not appear to be logged in any more. Please login again.'' [])] online0 \<and>
   get locked0 (socket_user sock0) = Some 0 \<and> targetedBy (heap locked0 0) \<noteq> [] \<and>
   (\<exists>msg. move env0 locked0 sock0 \<lparr>grid = AxisX, direction = 1\<rparr> =
            emit [DispatchToSocket sock0 (NEW_EVENT ''warning'' msg [])] locked0) \<and>
   get hidden0 (socket_user sock0) = Some 0 \<and> hidden (heap hidden0 0) \<and>
   move env0 hidden0 sock0 \<lparr>grid = AxisX, direction = 1\<rparr> =
     emit [DispatchToSocket sock0 (NEW_EVENT ''warning''
             ''You can't move as long as you are hidden. type /unhide to come out of hiding.''
             [])] hidden0 \<and>
   get online0 (socket_user sock0) = Some 0 \<and>
   ticksLeft cooling0 (cooldowns online0) 0 ''move'' \<noteq> 0 \<and>
   move cooling0 online0 sock0 \<lparr>grid = AxisX, direction = 1\<rparr> = online0 \<and>
   may_move env0 online0 sock1 1 \<and>
   calls (move env0 online0 sock1 \<lparr>grid = AxisX, direction = 1\<rparr>) = calls online0 \<and>
   heap (move env0 online0 sock1 \<lparr>grid = AxisX, direction = 1\<rparr>) = heap online0"
proof -
  have a: "get online0 (socket_user sock9) = None"
    by (simp add: online0_facts get_def truthy_def sock9_def store0_def alice_def bob_def npc_def)
  have b: "get locked0 (socket_user sock0) = Some 0" "targetedBy (heap locked0 0) \<noteq> []"
    by (simp_all add: locked0_def online0_facts get_def truthy_def sock0_def alice_def npc_def)
  have c: "get hidden0 (socket_user sock0) = Some 0" "targetedBy (heap hidden0 0) = []"
    "hidden (heap hidden0 0)"
    by (simp_all add: hidden0_def online0_facts get_def truthy_def sock0_def alice_def npc_def)
  have d: "get online0 (socket_user sock0) = Some 0" "targetedBy (heap online0 0) = []"
    "\<not> hidden (heap online0 0)" "ticksLeft cooling0 (cooldowns online0) 0 ''move'' \<noteq> 0"
    by (simp_all add: online0_facts get_def truthy_def sock0_def store0_def alice_def npc_def
        cooling0_def)
  from a b c d may_move1 bob_east_invalid
    move_rejections [where g = online0 and s = sock1 and env = env0
      and a = "\<lparr>grid = AxisX, direction = 1\<rparr>" and c = 1]
    move_rejections [where g = online0 and s = sock9 and env = env0 and a = "\<lparr>grid = AxisX, direction = 1\<rparr>" and c = 0]
    move_rejections [where g = locked0 and s = sock0 and env = env0 and a = "\<lparr>grid = AxisX, direction = 1\<rparr>" and c = 0]
    move_rejections [where g = hidden0 and s = sock0 and env = env0 and a = "\<lparr>grid = AxisX, direction = 1\<rparr>" and c = 0]
    move_rejections [where g = online0 and s = sock0 and env = cooling0 and a = "\<lparr>grid = AxisX, direction = 1\<rparr>" and c = 0]
  show ?thesis
    by (intro conjI) (simp_all only: simp_thms)
qed

text \<open>
  C4 as stated fails: while the move cooldown is active, a move by Alice makes no
  call at all, so no warning or error reaches her client.
\<close>

theorem move_cooldown_rejection_is_silent:
  "get online0 (socket_user sock0) = Some 0 \<and> targetedBy (heap online0 0) = [] \<and>
   \<not> hidden (heap online0 0) \<and> ticksLeft cooling0 (cooldowns online0) 0 ''move'' \<noteq> 0 \<and>
   calls (move cooling0 online0 sock0 \<lparr>grid = AxisX, direction = 1\<rparr>) = calls online0"
proof -
  have d: "get online0 (socket_user sock0) = Some 0" "targetedBy (heap online0 0) = []"
    "\<not> hidden (heap online0 0)" "ticksLeft cooling0 (cooldowns online0) 0 ''move'' \<noteq> 0"
    by (simp_all add: online0_facts get_def truthy_def sock0_def store0_def alice_def npc_def
        cooling0_def)
  from d move_cooling [OF d, of "\<lparr>grid = AxisX, direction = 1\<rparr>"] show ?thesis
    by simp
qed

section \<open>Sessions\<close>

lemma save_fields [simp]:
  "heap (fst (save env g u)) = heap g"
  "characters (fst (save env g u)) = characters g"
  "locations (fst (save env g u)) = locations g"
  "cooldowns (fst (save env g u)) = cooldowns g"
  by (simp_all add: save_def split: option.splits)

lemma save_found:
  assumes "get g u = Some c"
  shows "save env g u =
     (if saveFails env c then (emit [DbSave c] g, Some (Error ''dbSave''))
      else (emit [DbSave c, SaveInventory c] g, None))"
  using assms get_SomeD [OF assms] by (simp add: save_def)


lemma get_own: "get g u = Some c \<Longrightarrow> get g (user_id (heap g c)) = Some c"
  using get_SomeD [of g u c] by simp

lemma unlinkCharacter_fields [simp]:
  "characters (unlinkCharacter g f c) = characters g"
  "locations (unlinkCharacter g f c) = locations g"
  "cooldowns (unlinkCharacter g f c) = cooldowns g"
  "user_id (heap (unlinkCharacter g f c) r) = user_id (heap g r)"
  "targetedBy (heap (unlinkCharacter g f c) r) = targetedBy (heap g r)"
  "location (heap (unlinkCharacter g f c) r) = location (heap g r)"
  by (simp_all add: unlinkCharacter_def)

lemma linkCharacter_fields [simp]:
  "characters (linkCharacter g f c) = characters g"
  "locations (linkCharacter g f c) = locations g"
  "cooldowns (linkCharacter g f c) = cooldowns g"
  "user_id (heap (linkCharacter g f c) r) = user_id (heap g r)"
  "targetedBy (heap (linkCharacter g f c) r) = targetedBy (heap g r)"
  "location (heap (linkCharacter g f c) r) = location (heap g r)"
  by (simp_all add: linkCharacter_def)

lemma dispatch_fields [simp]:
  "heap (dispatchUpdatePlayerList g u) = heap g"
  "characters (dispatchUpdatePlayerList g u) = characters g"
  "locations (dispatchUpdatePlayerList g u) = locations g"
  "cooldowns (dispatchUpdatePlayerList g u) = cooldowns g"
  "heap (dispatchRemoveFromPlayerList g u) = heap g"
  "characters (dispatchRemoveFromPlayerList g u) = characters g"
  "locations (dispatchRemoveFromPlayerList g u) = locations g"
  "cooldowns (dispatchRemoveFromPlayerList g u) = cooldowns g"
  by (simp_all add: dispatchUpdatePlayerList_def dispatchRemoveFromPlayerList_def
      split: option.splits)

subsection \<open>remove\<close>

lemma remove_absent: "get g u = None \<Longrightarrow> remove env g u = (g, None)"
  by (simp add: remove_def)

lemma remove_save_fails:
  assumes "get g u = Some c" and "saveFails env c"
  shows "remove env g u = (emit [DbSave c] g, Some TypeError)"
  using assms save_found [OF get_own [OF assms(1)], of env] by (simp add: remove_def)

lemma remove_saved:
  assumes "get g u = Some c" and "\<not> saveFails env c"
  shows "snd (remove env g u) = None"
    and "characters (fst (remove env g u)) =
           filter (\<lambda>obj. user_id (heap g obj) \<noteq> u) (characters g)"
    and "locations (fst (remove env g u)) = locations g"
    and "cooldowns (fst (remove env g u)) = cooldowns g"
    and "user_id (heap (fst (remove env g u)) r) = user_id (heap g r)"
    and "targetedBy (heap (fst (remove env g u)) r) = targetedBy (heap g r)"
    and "location (heap (fst (remove env g u)) r) = location (heap g r)"
  using assms save_found [OF get_own [OF assms(1)], of env]
  by (simp_all add: remove_def Let_def split: option.splits)


lemma remove_rejects:
  "snd (remove env g u) =
     (case get g u of
        None \<Rightarrow> None
      | Some c \<Rightarrow> if saveFails env c then Some TypeError else None)"
  by (simp add: remove_absent remove_save_fails remove_saved split: option.splits)

lemma remove_keeps [simp]:
  "locations (fst (remove env g u)) = locations g"
  "cooldowns (fst (remove env g u)) = cooldowns g"
  "user_id (heap (fst (remove env g u)) r) = user_id (heap g r)"
  "targetedBy (heap (fst (remove env g u)) r) = targetedBy (heap g r)"
  "location (heap (fst (remove env g u)) r) = location (heap g r)"
proof -
  have "locations (fst (remove env g u)) = locations g \<and>
        cooldowns (fst (remove env g u)) = cooldowns g \<and>
        user_id (heap (fst (remove env g u)) r) = user_id (heap g r) \<and>
        targetedBy (heap (fst (remove env g u)) r) = targetedBy (heap g r) \<and>
        location (heap (fst (remove env g u)) r) = location (heap g r)"
  proof (cases "get g u")
    case None
    then show ?thesis by (simp add: remove_absent)
  next
    case (Some c)
    then show ?thesis
      by (cases "saveFails env c") (simp_all add: remove_save_fails remove_saved)
  qed
  then show "locations (fst (remove env g u)) = locations g"
    "cooldowns (fst (remove env g u)) = cooldowns g"
    "user_id (heap (fst (remove env g u)) r) = user_id (heap g r)"
    "targetedBy (heap (fst (remove env g u)) r) = targetedBy (heap g r)"
    "location (heap (fst (remove env g u)) r) = location (heap g r)"
    by simp_all
qed


subsection \<open>manage\<close>

lemma gridLock_keeps [simp]:
  "user_id (gridLock h c u r) = user_id (h r)"
  "location (gridLock h c u r) = location (h r)"
  by (simp_all add: gridLock_def)

lemma gridLock_targetedBy:
  "set (targetedBy (gridLock h c u r)) = set (targetedBy (h r)) \<union> (if r = c then {u} else {})"
  by (auto simp: gridLock_def)

lemma fold_gridLock_keeps [simp]:
  "user_id (fold (\<lambda>user h. gridLock h c user) us h r) = user_id (h r)"
  "location (fold (\<lambda>user h. gridLock h c user) us h r) = location (h r)"
  by (induction us arbitrary: h) simp_all

lemma fold_gridLock_targetedBy:
  "set (targetedBy (fold (\<lambda>user h. gridLock h c user) us h c)) = set (targetedBy (h c)) \<union> set us"
  by (induction us arbitrary: h) (auto simp: gridLock_targetedBy)

lemma transfer_fields [simp]:
  "characters (transfer g c e) = characters g"
  "locations (transfer g c e) = locations g"
  "cooldowns (transfer g c e) = cooldowns g"
  "user_id (heap (transfer g c e) r) = user_id (heap g r)"
  "location (heap (transfer g c e) r) = location (heap g r)"
  "set (targetedBy (heap (transfer g c e) c)) =
     set (targetedBy (heap g c)) \<union> set (targetedBy (heap g e))"
  by (simp_all add: transfer_def fold_gridLock_targetedBy)

lemma get_transfer [simp]: "get (transfer g c e) u = get g u"
  by (rule get_cong) simp_all

text \<open>The part of \<open>manage\<close> that follows the replacement of the old session.\<close>

lemma manage_no_replacement:
  assumes "List.find (\<lambda>obj. user_id (heap g obj) = user_id (heap g c)) (characters g) = None
           \<or> \<not> w"
  shows "characters (fst (manage env w g c)) = characters g @ [c]"
    and "locations (fst (manage env w g c)) = locations g"
    and "cooldowns (fst (manage env w g c)) = cooldowns g"
    and "user_id (heap (fst (manage env w g c)) r) = user_id (heap g r)"
    and "targetedBy (heap (fst (manage env w g c)) r) = targetedBy (heap g r)"
    and "location (heap (fst (manage env w g c)) r) = location (heap g r)"
  using assms
  by (auto simp: manage_def Let_def split: option.splits)

lemma manage_rejected:
  assumes "List.find (\<lambda>obj. user_id (heap g obj) = user_id (heap g c)) (characters g) = Some e"
    and "snd (remove env (transfer g c e) (user_id (heap g c))) = Some err"
  shows "manage env True g c = (fst (remove env (transfer g c e) (user_id (heap g c))), Some err)"
  using assms by (simp add: manage_def Let_def case_prod_beta)

lemma manage_replaced:
  assumes "List.find (\<lambda>obj. user_id (heap g obj) = user_id (heap g c)) (characters g) = Some e"
    and "snd (remove env (transfer g c e) (user_id (heap g c))) = None"
  shows "characters (fst (manage env True g c)) =
           characters (fst (remove env (transfer g c e) (user_id (heap g c)))) @ [c]"
    and "locations (fst (manage env True g c)) = locations g"
    and "cooldowns (fst (manage env True g c)) = cooldowns g"
    and "user_id (heap (fst (manage env True g c)) r) = user_id (heap g r)"
    and "targetedBy (heap (fst (manage env True g c)) r) = targetedBy (heap (transfer g c e) r)"
    and "location (heap (fst (manage env True g c)) r) = location (heap g r)"
  using assms
  by (simp_all add: manage_def Let_def case_prod_beta split: option.splits)


lemma get_find:
  "get g u = (if truthy u then List.find (\<lambda>obj. user_id (heap g obj) = u) (characters g) else None)"
  by (simp add: get_def)

lemma manage_characters:
  "characters (fst (manage env w g c)) =
     (if w
      then (case get g (user_id (heap g c)) of
              None \<Rightarrow> characters g @ [c]
            | Some e \<Rightarrow>
                if saveFails env e then characters g
                else filter (\<lambda>obj. user_id (heap g obj) \<noteq> user_id (heap g c)) (characters g) @ [c])
      else characters g @ [c])"
proof (cases "w \<and> List.find (\<lambda>obj. user_id (heap g obj) = user_id (heap g c)) (characters g) \<noteq> None")
  case False
  then have n: "List.find (\<lambda>obj. user_id (heap g obj) = user_id (heap g c)) (characters g) = None
           \<or> \<not> w" by auto
  from False have "w \<Longrightarrow> get g (user_id (heap g c)) = None"
    by (simp add: get_find)
  with manage_no_replacement(1) [OF n] show ?thesis by auto
next
  case True
  then obtain e where w: w
    and e: "List.find (\<lambda>obj. user_id (heap g obj) = user_id (heap g c)) (characters g) = Some e"
    by auto
  let ?g0 = "transfer g c e"
  let ?u = "user_id (heap g c)"
  show ?thesis
  proof (cases "get g ?u")
    case None
    then have "remove env ?g0 ?u = (?g0, None)"
      by (simp add: remove_absent)
    with manage_replaced(1) [OF e, of env] w None show ?thesis by simp
  next
    case (Some e')
    then have g0: "get ?g0 ?u = Some e'" by simp
    show ?thesis
    proof (cases "saveFails env e'")
      case True
      from remove_save_fails [OF g0 True] manage_rejected [OF e, of env TypeError] w Some True
      show ?thesis by simp
    next
      case False
      from remove_saved(1,2) [OF g0 False] manage_replaced(1) [OF e, of env] w Some False
      show ?thesis by simp
    qed
  qed
qed

lemma manage_keeps [simp]:
  "locations (fst (manage env w g c)) = locations g"
  "cooldowns (fst (manage env w g c)) = cooldowns g"
  "user_id (heap (fst (manage env w g c)) r) = user_id (heap g r)"
  "location (heap (fst (manage env w g c)) r) = location (heap g r)"
proof -
  have "locations (fst (manage env w g c)) = locations g \<and>
        cooldowns (fst (manage env w g c)) = cooldowns g \<and>
        user_id (heap (fst (manage env w g c)) r) = user_id (heap g r) \<and>
        location (heap (fst (manage env w g c)) r) = location (heap g r)"
  proof (cases "w \<and> List.find (\<lambda>obj. user_id (heap g obj) = user_id (heap g c)) (characters g) \<noteq> None")
    case False
    then have n: "List.find (\<lambda>obj. user_id (heap g obj) = user_id (heap g c)) (characters g) = None
           \<or> \<not> w" by auto
    from manage_no_replacement(2,3,4,6) [OF n] show ?thesis by simp
  next
    case True
    then obtain e where w: w
      and e: "List.find (\<lambda>obj. user_id (heap g obj) = user_id (heap g c)) (characters g) = Some e"
      by auto
    show ?thesis
    proof (cases "snd (remove env (transfer g c e) (user_id (heap g c)))")
      case None
      from manage_replaced(2,3,4,6) [OF e None] w show ?thesis by simp
    next
      case (Some err)
      from manage_rejected [OF e Some] w show ?thesis by simp
    qed
  qed
  then show "locations (fst (manage env w g c)) = locations g"
    "cooldowns (fst (manage env w g c)) = cooldowns g"
    "user_id (heap (fst (manage env w g c)) r) = user_id (heap g r)"
    "location (heap (fst (manage env w g c)) r) = location (heap g r)"
    by simp_all
qed


subsection \<open>At most one session per user\<close>

lemma unique_cong:
  assumes "characters s = characters g" and "\<And>r. user_id (heap s r) = user_id (heap g r)"
  shows "unique_online s = unique_online g"
  using assms by (simp add: unique_online_def)





















section \<open>Frame lemmas for death and movement\<close>

lemma award_keeps [simp]:
  "characters (award cr er ch g) = characters g"
  "locations (award cr er ch g) = locations g"
  "cooldowns (award cr er ch g) = cooldowns g"
  "user_id (heap (award cr er ch g) r) = user_id (heap g r)"
  "name (heap (award cr er ch g) r) = name (heap g r)"
  "location (heap (award cr er ch g) r) = location (heap g r)"
  by (simp_all add: award_def Let_def updateCash_def updateExp_def)

lemma fold_award_keeps [simp]:
  "characters (fold (award cr er) tb g) = characters g"
  "locations (fold (award cr er) tb g) = locations g"
  "cooldowns (fold (award cr er) tb g) = cooldowns g"
  "user_id (heap (fold (award cr er) tb g) r) = user_id (heap g r)"
  "name (heap (fold (award cr er) tb g) r) = name (heap g r)"
  "location (heap (fold (award cr er) tb g) r) = location (heap g r)"
  by (induction tb arbitrary: g) simp_all

lemma move_keeps [simp]:
  "characters (move env g s a) = characters g"
  "locations (move env g s a) = locations g"
  "user_id (heap (move env g s a) r) = user_id (heap g r)"
  by (simp_all add: move_def Let_def cooldown_add_def split: option.splits prod.splits)

lemma kill_keeps [simp]:
  "characters (fst (kill env g u k)) = characters g"
  "locations (fst (kill env g u k)) = locations g"
  by (simp_all add: kill_def Let_def split: option.splits prod.splits)

section \<open>The grid index and the registry operations\<close>

lemma getLocationList_internal:
  "getLocationList g m (Some x) (Some y) ignore False =
     Inl (filter (\<lambda>obj. location (heap g obj) = \<lparr>loc_map = m, loc_x = x, loc_y = y\<rparr>)
            (characters g))"
proof -
  have "(location (heap g obj) = \<lparr>loc_map = m, loc_x = x, loc_y = y\<rparr>) =
        (loc_map (location (heap g obj)) = m \<and> loc_y (location (heap g obj)) = y \<and>
         loc_x (location (heap g obj)) = x)" for obj
    by (cases "location (heap g obj)") auto
  then show ?thesis
    by (simp add: getLocationList_def)
qed

lemma location_key_6_5:
  "location_key \<lparr>loc_map = ''city'', loc_x = 6, loc_y = 5\<rparr> = ''city_5_6''"
  by (simp add: location_key_def show_int_def show_nat.simps digit_char_def)

lemma indexed0_facts:
  "characters indexed0 = [0, 1]"
  "heap indexed0 = store0"
  "cooldowns indexed0 = []"
  "locations indexed0 = Some [''city_5_5'' \<mapsto> [0], ''city_5_6'' \<mapsto> [1]]"
  by (simp_all add: indexed0_def online0_facts)

lemma may_move_indexed0: "may_move env0 indexed0 sock0 0"
  by (simp add: may_move_def indexed0_facts get_def truthy_def sock0_def store0_def alice_def
      npc_def env0_def)

text \<open>
  C2, as the code has it. \<open>manage\<close>, \<open>remove\<close>, \<open>move\<close> and \<open>kill\<close> never touch the
  grid index. The occupants of a cell are computed from the location field instead:
  in internal mode \<open>getLocationList(map, x, y)\<close> returns exactly the registered
  characters whose location is that cell, so every online character is listed in the
  cell of its current location and in no other.
\<close>

theorem occupants_follow_location:
  "locations (fst (manage env w g c)) = locations g \<and>
   locations (fst (remove env g u)) = locations g \<and>
   locations (move env g s a) = locations g \<and>
   locations (fst (kill env g u k)) = locations g \<and>
   getLocationList g m (Some x) (Some y) ignore False =
     Inl (filter (\<lambda>obj. location (heap g obj) = \<lparr>loc_map = m, loc_x = x, loc_y = y\<rparr>)
            (characters g))"
  by (simp add: getLocationList_internal)

text \<open>
  C2 as stated fails. On a fresh manager Alice is registered by \<open>manage\<close>: she is
  online, the index is still undefined and no cell holds her. And where the index does
  list Alice in the cell of her location, she moves east and the index still lists her
  in the old cell and not in the cell of her new location.
\<close>

theorem index_not_maintained:
  "characters (fst (manage env0 False (constructor store0) 0)) = [0] \<and>
   locations (fst (manage env0 False (constructor store0) 0)) = None \<and>
   \<not> in_cell (fst (manage env0 False (constructor store0) 0))
       (location_key (location (heap (fst (manage env0 False (constructor store0) 0)) 0))) 0 \<and>
   in_cell indexed0 (location_key (location (heap indexed0 0))) 0 \<and>
   may_move env0 indexed0 sock0 0 \<and>
   location (heap (move env0 indexed0 sock0 \<lparr>grid = AxisX, direction = 1\<rparr>) 0) =
     \<lparr>loc_map = ''city'', loc_x = 6, loc_y = 5\<rparr> \<and>
   in_cell (move env0 indexed0 sock0 \<lparr>grid = AxisX, direction = 1\<rparr>) ''city_5_5'' 0 \<and>
   \<not> in_cell (move env0 indexed0 sock0 \<lparr>grid = AxisX, direction = 1\<rparr>)
       (location_key (location (heap (move env0 indexed0 sock0 \<lparr>grid = AxisX, direction = 1\<rparr>) 0))) 0"
proof -
  let ?g = "move env0 indexed0 sock0 \<lparr>grid = AxisX, direction = 1\<rparr>"
  have l0: "location (heap indexed0 0) = \<lparr>loc_map = ''city'', loc_x = 5, loc_y = 5\<rparr>"
    by (simp add: indexed0_facts store0_def alice_def npc_def)
  have a: "in_cell indexed0 (location_key (location (heap indexed0 0))) 0"
    unfolding l0 location_key_5_5 by (simp add: in_cell_def indexed0_facts)
  have v: "validCell env0 ''city'' 6 5" by (simp add: env0_def)
  have d: "\<lparr>loc_map = ''city'', loc_x = 6, loc_y = 5\<rparr> =
     actionNewLocation (location (heap indexed0 0)) \<lparr>grid = AxisX, direction = 1\<rparr>"
    by (simp add: actionNewLocation_def l0)
  have m: "moved indexed0 ?g sock0 0 \<lparr>loc_map = ''city'', loc_x = 6, loc_y = 5\<rparr>
      (fst (directionNames \<lparr>grid = AxisX, direction = 1\<rparr>))
      (snd (directionNames \<lparr>grid = AxisX, direction = 1\<rparr>))"
    by (rule move_moved [OF may_move_indexed0 _ d]) (simp add: v)
  then have l: "location (heap ?g 0) = \<lparr>loc_map = ''city'', loc_x = 6, loc_y = 5\<rparr>"
    by (simp add: moved_def)
  have b: "in_cell ?g ''city_5_5'' 0"
    by (simp add: in_cell_def indexed0_facts)
  have c: "\<not> in_cell ?g (location_key (location (heap ?g 0))) 0"
    unfolding l location_key_6_5
    by (simp add: in_cell_def indexed0_facts store0_def alice_def bob_def npc_def)
  have f: "characters (fst (manage env0 False (constructor store0) 0)) = [0]"
    "locations (fst (manage env0 False (constructor store0) 0)) = None"
    by (simp_all add: manage_characters constructor_def)
  then have n: "\<not> in_cell (fst (manage env0 False (constructor store0) 0))
       (location_key (location (heap (fst (manage env0 False (constructor store0) 0)) 0))) 0"
    by (simp add: in_cell_def)
  from f n a may_move_indexed0 l b c show ?thesis by (intro conjI)
qed

section \<open>Death\<close>

lemma kill_offline:
  "get g uid = None \<Longrightarrow> kill env g uid killer = (g, Inl TypeError)"
  by (simp add: kill_def)

lemma award_money:
  "stats_money (heap (award cr er ch g) r) = stats_money (heap g r) + (if r = ch then cr else 0)"
  by (simp add: award_def Let_def updateCash_def updateExp_def)

lemma award_exp:
  "stats_exp (heap (award cr er ch g) r) =
     stats_exp (heap g r) + (if r = ch \<and> truthy (user_id (heap g r)) then er else 0)"
  by (simp add: award_def Let_def updateCash_def updateExp_def)

lemma fold_award_money:
  "stats_money (heap (fold (award cr er) tb g) r) =
     stats_money (heap g r) + int (count_list tb r) * cr"
  by (induction tb arbitrary: g) (simp_all add: award_money algebra_simps)

lemma fold_award_exp:
  "stats_exp (heap (fold (award cr er) tb g) r) =
     stats_exp (heap g r) +
     (if truthy (user_id (heap g r)) then int (count_list tb r) * er else 0)"
  by (induction tb arbitrary: g) (simp_all add: award_exp algebra_simps)

lemma updateClient_calls: "set (calls g) \<subseteq> set (calls (updateClient g u))"
  by (auto simp: updateClient_def split: option.splits)

lemma award_calls: "set (calls g) \<subseteq> set (calls (award cr er ch g))"
  using updateClient_calls by (fastforce simp: award_def Let_def)

lemma kill_heap:
  assumes "get g uid = Some c"
    and "mapGet env (loc_map (location (heap g c))) = Some gm"
    and "die env c (heap g) = (h1, droppedLoot)"
  shows "heap (fst (kill env g uid killer)) = heap (rewarded g c gm h1 droppedLoot)"
  using assms by (simp add: kill_def Let_def rewarded_def)

lemma fold_award_calls: "set (calls g) \<subseteq> set (calls (fold (award cr er) tb g))"
proof (induction tb arbitrary: g)
  case Nil
  then show ?case by simp
next
  case (Cons ch tb)
  from award_calls [of g cr er ch] Cons [of "award cr er ch g"] show ?case by auto
qed

lemma kill_calls:
  assumes "get g uid = Some c"
    and "mapGet env (loc_map (location (heap g c))) = Some gm"
    and "die env c (heap g) = (h1, droppedLoot)"
    and "truthy (user_id (h1 killer))"
  shows "DispatchToUser (user_id (h1 killer))
           (NEW_EVENT ''info'' (''You find '' @ show_int (loot_cash droppedLoot) @
              '' money on '' @ name (h1 c) @ '' body.'') [])
         \<in> set (calls (fst (kill env g uid killer)))"
proof -
  define g5 where "g5 = rewarded g c gm h1 droppedLoot"
  define g6 where "g6 = eventToUser (user_id (heap g5 killer)) ''info''
      (''You find '' @ show_int (loot_cash droppedLoot) @ '' money on '' @ name (heap g5 c) @ '' body.'') g5"
  have h5: "user_id (heap g5 r) = user_id (h1 r)" "name (heap g5 r) = name (h1 r)" for r
    by (simp_all add: g5_def rewarded_def)
  define g7 where "g7 = emit [DispatchToRoom (getLocationId (h1 c))
                                    (UPDATE_GROUND_ITEMS (loc_map (location (h1 c))) (loc_x (location (h1 c)))
                                       (loc_y (location (h1 c)))),
                                  DispatchToRoom (getLocationId (heap g6 c))
                                    (joinedGrid (heap g6 c)),
                                  UserJoinRoom (user_id (heap g6 c))
                                    (getLocationId (heap g6 c))] g6"
  have k: "fst (kill env g uid killer) =
      emit [MapUpdateClient (user_id (heap (updateClient g7 (user_id (heap g7 c))) c))] (updateClient g7 (user_id (heap g7 c)))"
    using assms h5 by (simp add: kill_def Let_def rewarded_def g5_def g6_def g7_def)
  have "DispatchToUser (user_id (h1 killer))
           (NEW_EVENT ''info'' (''You find '' @ show_int (loot_cash droppedLoot) @
              '' money on '' @ name (h1 c) @ '' body.'') []) \<in> set (calls g7)"
    by (simp add: g7_def g6_def h5)
  with updateClient_calls [of g7 "user_id (heap g7 c)"] show ?thesis
    unfolding k by auto
qed

lemma fight0_facts:
  "characters fight0 = [0, 1]"
  "heap fight0 = store0(0 := alice\<lparr>targetedBy := [1, 2]\<rparr>)"
  by (simp_all add: fight0_def online0_facts)

text \<open>
  C7. In \<open>kill\<close>, with dropped cash C, dropped experience E and the N entries of the
  loot's \<open>targetedBy\<close> as contributors: every entry is paid the cash award C div N,
  rounded down, so a contributor's cash grows by that award for each of its entries
  and the awards sum to at most C; the experience award E div N goes only to
  contributors with a user id, a contributor without one keeping its experience;
  and a killer with a user id is told the full amount C.
\<close>

theorem kill_reward_split:
  assumes "get g uid = Some c"
    and "mapGet env (loc_map (location (heap g c))) = Some gm"
    and "die env c (heap g) = (h1, droppedLoot)"
  shows "(\<forall>r. stats_money (heap (fst (kill env g uid killer)) r) =
               stats_money (h1 r) +
               int (count_list (loot_targetedBy droppedLoot) r) *
                 (loot_cash droppedLoot div int (length (loot_targetedBy droppedLoot)))) \<and>
         (\<forall>r. stats_exp (heap (fst (kill env g uid killer)) r) =
               stats_exp (h1 r) +
               (if truthy (user_id (h1 r))
                then int (count_list (loot_targetedBy droppedLoot) r) *
                       (loot_exp droppedLoot div int (length (loot_targetedBy droppedLoot)))
                else 0)) \<and>
         (loot_targetedBy droppedLoot \<noteq> [] \<longrightarrow>
            (\<Sum>r \<in> set (loot_targetedBy droppedLoot).
                stats_money (heap (fst (kill env g uid killer)) r) - stats_money (h1 r))
            \<le> loot_cash droppedLoot) \<and>
         (truthy (user_id (h1 killer)) \<longrightarrow>
            DispatchToUser (user_id (h1 killer))
              (NEW_EVENT ''info'' (''You find '' @ show_int (loot_cash droppedLoot) @
                 '' money on '' @ name (h1 c) @ '' body.'') [])
            \<in> set (calls (fst (kill env g uid killer))))"
proof (intro conjI allI impI)
  let ?tb = "loot_targetedBy droppedLoot"
  let ?N = "int (length ?tb)"
  let ?g = "fst (kill env g uid killer)"
  have m: "stats_money (heap ?g r) = stats_money (h1 r) +
      int (count_list ?tb r) * (loot_cash droppedLoot div ?N)" for r
    by (simp add: kill_heap [OF assms] rewarded_def fold_award_money)
  show "stats_money (heap ?g r) = stats_money (h1 r) +
      int (count_list ?tb r) * (loot_cash droppedLoot div ?N)" for r
    by (rule m)
  show "stats_exp (heap ?g r) = stats_exp (h1 r) +
      (if truthy (user_id (h1 r)) then int (count_list ?tb r) * (loot_exp droppedLoot div ?N) else 0)" for r
    by (simp add: kill_heap [OF assms] rewarded_def fold_award_exp)
  show "(\<Sum>r \<in> set ?tb. stats_money (heap ?g r) - stats_money (h1 r)) \<le> loot_cash droppedLoot"
    if ne: "?tb \<noteq> []"
  proof -
    have "(\<Sum>r \<in> set ?tb. stats_money (heap ?g r) - stats_money (h1 r)) =
          (\<Sum>r \<in> set ?tb. int (count_list ?tb r) * (loot_cash droppedLoot div ?N))"
      by (simp add: m)
    also have "\<dots> = int (\<Sum>r \<in> set ?tb. count_list ?tb r) * (loot_cash droppedLoot div ?N)"
      by (simp add: sum_distrib_right)
    also have "(\<Sum>r \<in> set ?tb. count_list ?tb r) = length ?tb"
      by (rule sum_count_set) simp_all
    also have "?N * (loot_cash droppedLoot div ?N) \<le> loot_cash droppedLoot"
    proof -
      from ne have p: "0 < ?N" by simp
      have "loot_cash droppedLoot = ?N * (loot_cash droppedLoot div ?N) + loot_cash droppedLoot mod ?N"
        by simp
      moreover from p have "0 \<le> loot_cash droppedLoot mod ?N"
        by (rule pos_mod_sign)
      ultimately show ?thesis by linarith
    qed
    finally show ?thesis .
  qed
  show "DispatchToUser (user_id (h1 killer))
              (NEW_EVENT ''info'' (''You find '' @ show_int (loot_cash droppedLoot) @
                 '' money on '' @ name (h1 c) @ '' body.'') [])
            \<in> set (calls ?g)" if "truthy (user_id (h1 killer))"
    by (rule kill_calls [OF assms that])
qed

theorem kill_reward_split_witness:
  "get fight0 (Some ''u1'') = Some 0 \<and>
   mapGet env0 (loc_map (location (heap fight0 0))) =
     Some \<lparr>map_id = ''city'', respawn_x = 1, respawn_y = 1\<rparr> \<and>
   snd (die env0 0 (heap fight0)) =
     \<lparr>loot_items = [7], loot_cash = 101, loot_exp = 10, loot_targetedBy = [1, 2]\<rparr> \<and>
   stats_money (heap (fst (kill env0 fight0 (Some ''u1'') 1)) 1) = 50 \<and>
   stats_money (heap (fst (kill env0 fight0 (Some ''u1'') 1)) 2) = 50 \<and>
   stats_exp (heap (fst (kill env0 fight0 (Some ''u1'') 1)) 1) = 5 \<and>
   stats_exp (heap (fst (kill env0 fight0 (Some ''u1'') 1)) 2) = 0 \<and>
   (\<Sum>r \<in> {1, 2}. stats_money (heap (fst (kill env0 fight0 (Some ''u1'') 1)) r) -
        stats_money (fst (die env0 0 (heap fight0)) r)) \<le> 101 \<and>
   DispatchToUser (Some ''u2'') (NEW_EVENT ''info'' ''You find 101 money on Alice body.'' [])
     \<in> set (calls (fst (kill env0 fight0 (Some ''u1'') 1)))"
proof -
  define h1 where "h1 = (heap fight0)(0 := (heap fight0 0)\<lparr>targetedBy := [], stats_money := 0\<rparr>)"
  define droppedLoot where
    "droppedLoot = \<lparr>loot_items = [7], loot_cash = 101, loot_exp = 10, loot_targetedBy = [1, 2::nat]\<rparr>"
  have a: "get fight0 (Some ''u1'') = Some 0"
    by (simp add: fight0_facts get_def truthy_def alice_def npc_def)
  have b: "mapGet env0 (loc_map (location (heap fight0 0))) =
     Some \<lparr>map_id = ''city'', respawn_x = 1, respawn_y = 1\<rparr>"
    by (simp add: fight0_facts env0_def alice_def npc_def)
  have c: "die env0 0 (heap fight0) = (h1, droppedLoot)"
    by (simp add: h1_def droppedLoot_def env0_def fight0_facts alice_def npc_def)
  have h: "stats_money (h1 (Suc 0)) = 0" "stats_money (h1 2) = 0" "stats_exp (h1 (Suc 0)) = 0"
    "stats_exp (h1 2) = 0" "user_id (h1 (Suc 0)) = Some ''u2''" "user_id (h1 2) = None"
    "name (h1 0) = ''Alice''"
    by (simp_all add: h1_def fight0_facts store0_def alice_def bob_def npc_def)
  have s: "show_int 101 = ''101''"
    by (simp add: show_int_def show_nat.simps digit_char_def)
  have l: "loot_targetedBy droppedLoot = [1, 2]" "loot_cash droppedLoot = 101"
    "loot_exp droppedLoot = 10"
    by (simp_all add: droppedLoot_def)
  let ?g = "fst (kill env0 fight0 (Some ''u1'') 1)"
  note k = kill_reward_split [OF a b c, of 1]
  from k have m: "\<forall>r. stats_money (heap ?g r) = stats_money (h1 r) +
      int (count_list (loot_targetedBy droppedLoot) r) *
        (loot_cash droppedLoot div int (length (loot_targetedBy droppedLoot)))"
    by (rule conjunct1)
  from k have e: "\<forall>r. stats_exp (heap ?g r) = stats_exp (h1 r) +
      (if truthy (user_id (h1 r))
       then int (count_list (loot_targetedBy droppedLoot) r) *
              (loot_exp droppedLoot div int (length (loot_targetedBy droppedLoot)))
       else 0)"
    by (elim conjE)
  from k have t: "(\<Sum>r \<in> {1, 2}. stats_money (heap ?g r) - stats_money (h1 r)) \<le> 101"
    by (simp add: l)
  from k have n: "DispatchToUser (Some ''u2'')
      (NEW_EVENT ''info'' ''You find 101 money on Alice body.'' []) \<in> set (calls ?g)"
    by (simp add: l h s truthy_def)
  have d: "snd (die env0 0 (heap fight0)) = droppedLoot" "fst (die env0 0 (heap fight0)) = h1"
    by (simp_all add: c)
  from m [rule_format, of 1] m [rule_format, of 2] e [rule_format, of 1] e [rule_format, of 2]
  have v: "stats_money (heap ?g 1) = 50" "stats_money (heap ?g 2) = 50"
    "stats_exp (heap ?g 1) = 5" "stats_exp (heap ?g 2) = 0"
    by (simp_all add: l h truthy_def)
  show ?thesis
    unfolding d using a b v t n by (simp only: droppedLoot_def simp_thms)
qed

text \<open>
  C10. \<open>kill\<close> needs a registered character for the user id: without one,
  \<open>get\<close> returns null, reading \<open>character.location\<close> throws a TypeError, and
  the state is as it was.
\<close>

theorem kill_offline_throws:
  assumes "get g uid = None"
  shows "kill env g uid killer = (g, Inl TypeError)"
  using assms by (rule kill_offline)

theorem kill_offline_throws_witness:
  "get online0 (Some ''u9'') = None \<and> kill env0 online0 (Some ''u9'') 0 = (online0, Inl TypeError)"
proof -
  have a: "get online0 (Some ''u9'') = None"
    by (simp add: online0_facts get_def truthy_def store0_def alice_def bob_def npc_def)
  from a kill_offline_throws [OF a, of env0 0] show ?thesis by (intro conjI)
qed

end
